theory Spec2Isabelle
  imports Complex_Main "HOL-Library.Sublist"
begin

section \<open>Python values used by the transcription module\<close>

text \<open>
  A Python \<open>str\<close> is modelled by its UTF-8 encoding as a \<open>char list\<close>. Concatenation,
  \<open>startswith\<close> and the substring test \<open>in\<close> agree on both views: UTF-8 is
  self-synchronising. The Chinese literals of the source are therefore written as bytes.
  Python floats are modelled as reals: the module only compares them and scales them by
  constants.
\<close>

type_synonym path = string

text \<open>The exception classes the module raises or catches; the argument is \<open>str(e)\<close>.\<close>

datatype exn =
    FileNotFoundError string
  | ValueError string
  | RuntimeError string
  | TypeError string
  | Exception string

fun str_exn :: "exn \<Rightarrow> string" where
  "str_exn (FileNotFoundError m) = m"
| "str_exn (ValueError m) = m"
| "str_exn (RuntimeError m) = m"
| "str_exn (TypeError m) = m"
| "str_exn (Exception m) = m"

text \<open>Decimal rendering of a non-negative integer, as an f-string does it.\<close>

fun str_nat :: "nat \<Rightarrow> string" where
  "str_nat n =
     (if n < 10 then [''0123456789'' ! n]
      else str_nat (n div 10) @ [''0123456789'' ! (n mod 10)])"

declare str_nat.simps [simp del]

text \<open>\<open>sep.join(xs)\<close>.\<close>

fun join :: "string \<Rightarrow> string list \<Rightarrow> string" where
  "join sep [] = []"
| "join sep [x] = x"
| "join sep (x # y # ys) = x @ sep @ join sep (y # ys)"

text \<open>\<open>posixpath.splitext\<close>: the extension starts at the last dot of the last path
  component, unless that component has only leading dots before it.\<close>

definition rfind :: "char \<Rightarrow> string \<Rightarrow> int" where
  "rfind c p =
     (case filter (\<lambda>i. p ! i = c) (rev [0..<length p]) of
        [] \<Rightarrow> - 1
      | i # _ \<Rightarrow> int i)"

definition splitext :: "path \<Rightarrow> string \<times> string" where
  "splitext p =
     (let sepIndex = rfind (CHR ''/'') p;
          dotIndex = rfind (CHR ''.'') p
      in if dotIndex > sepIndex
            \<and> list_ex (\<lambda>k. p ! k \<noteq> CHR ''.'') [nat (sepIndex + 1)..<nat dotIndex]
         then (take (nat dotIndex) p, drop (nat dotIndex) p)
         else (p, []))"

subsection \<open>Message literals of the source\<close>

definition not_found_msg :: string where
  \<comment> \<open>the f-string prefix of \<open>FileNotFoundError\<close> in \<open>transcribe\<close>, \<open>compress_for_api\<close>, \<open>split_audio\<close>\<close>
  "not_found_msg =
     [CHR 0xE9, CHR 0x9F, CHR 0xB3, CHR 0xE9, CHR 0xA2, CHR 0x91, CHR 0xE6, CHR 0x96, CHR 0x87,
      CHR 0xE4, CHR 0xBB, CHR 0xB6, CHR 0xE4, CHR 0xB8, CHR 0x8D, CHR 0xE5, CHR 0xAD, CHR 0x98,
      CHR 0xE5, CHR 0x9C, CHR 0xA8] @ '': ''"

definition need_key_msg :: string where
  \<comment> \<open>\<open>ValueError\<close> of \<open>load_model\<close>\<close>
  "need_key_msg =
     [CHR 0xE4, CHR 0xBD, CHR 0xBF, CHR 0xE7, CHR 0x94, CHR 0xA8, CHR 0xE5, CHR 0x9C, CHR 0xA8,
      CHR 0xE7, CHR 0xBA, CHR 0xBF, CHR 0xE8, CHR 0xBD, CHR 0xAC, CHR 0xE5, CHR 0x86, CHR 0x99,
      CHR 0xE6, CHR 0xA8, CHR 0xA1, CHR 0xE5, CHR 0x9E, CHR 0x8B, CHR 0xE9, CHR 0x9C, CHR 0x80,
      CHR 0xE8, CHR 0xA6, CHR 0x81, CHR 0xE6, CHR 0x8F, CHR 0x90, CHR 0xE4, CHR 0xBE, CHR 0x9B]
     @ '' API Key''"

definition load_failed_msg :: string where
  "load_failed_msg =
     [CHR 0xE6, CHR 0xA8, CHR 0xA1, CHR 0xE5, CHR 0x9E, CHR 0x8B, CHR 0xE5, CHR 0x8A, CHR 0xA0,
      CHR 0xE8, CHR 0xBD, CHR 0xBD, CHR 0xE5, CHR 0xA4, CHR 0xB1, CHR 0xE8, CHR 0xB4, CHR 0xA5]
     @ '': ''"

definition transcribe_failed :: string where
  \<comment> \<open>the four characters shared by the API and chunk messages\<close>
  "transcribe_failed =
     [CHR 0xE8, CHR 0xBD, CHR 0xAC, CHR 0xE5, CHR 0x86, CHR 0x99,
      CHR 0xE5, CHR 0xA4, CHR 0xB1, CHR 0xE8, CHR 0xB4, CHR 0xA5]"

definition fallback_failed_msg :: string where
  \<comment> \<open>line 209: the f-string prefix before \<open>str(e2)\<close>\<close>
  "fallback_failed_msg =
     ''OpenAI API '' @ transcribe_failed @ '' (''
     @ [CHR 0xE5, CHR 0x9B, CHR 0x9E, CHR 0xE9, CHR 0x80, CHR 0x80, CHR 0xE4, CHR 0xB9, CHR 0x9F,
        CHR 0xE5, CHR 0xA4, CHR 0xB1, CHR 0xE8, CHR 0xB4, CHR 0xA5] @ ''): ''"

definition api_failed_msg :: string where
  \<comment> \<open>line 211: the f-string prefix before \<open>str(e)\<close>\<close>
  "api_failed_msg = ''OpenAI API '' @ transcribe_failed @ '': ''"

definition local_failed_msg :: string where
  "local_failed_msg =
     [CHR 0xE8, CHR 0xAF, CHR 0xAD, CHR 0xE9, CHR 0x9F, CHR 0xB3] @ transcribe_failed @ '': ''"

definition chunk_failed_msg :: "nat \<Rightarrow> string \<Rightarrow> string" where
  \<comment> \<open>line 360: the message built from \<open>index\<close> and \<open>str(e)\<close>\<close>
  "chunk_failed_msg index m =
     [CHR 0xE7, CHR 0x89, CHR 0x87, CHR 0xE6, CHR 0xAE, CHR 0xB5] @ '' ''
     @ str_nat (index + 1) @ '' '' @ transcribe_failed
     @ [CHR 0xEF, CHR 0xBC, CHR 0x8C, CHR 0xE6, CHR 0xB5, CHR 0x81, CHR 0xE7, CHR 0xA8, CHR 0x8B,
        CHR 0xE7, CHR 0xBB, CHR 0x88, CHR 0xE6, CHR 0xAD, CHR 0xA2, CHR 0xE3, CHR 0x80, CHR 0x82,
        CHR 0xE9, CHR 0x94, CHR 0x99, CHR 0xE8, CHR 0xAF, CHR 0xAF] @ '': '' @ m"

definition split_failed_msg :: string where
  "split_failed_msg =
     [CHR 0xE9, CHR 0x9F, CHR 0xB3, CHR 0xE9, CHR 0xA2, CHR 0x91, CHR 0xE5, CHR 0x88, CHR 0x87,
      CHR 0xE7, CHR 0x89, CHR 0x87, CHR 0xE5, CHR 0xA4, CHR 0xB1, CHR 0xE8, CHR 0xB4, CHR 0xA5]
     @ '': ''"

definition compress_failed_msg :: string where
  "compress_failed_msg =
     [CHR 0xE5, CHR 0x8E, CHR 0x8B, CHR 0xE7, CHR 0xBC, CHR 0xA9,
      CHR 0xE5, CHR 0xA4, CHR 0xB1, CHR 0xE8, CHR 0xB4, CHR 0xA5] @ '': ''"

definition ffmpeg_missing_msg :: string where
  \<comment> \<open>\<open>RuntimeError\<close> of \<open>AudioProcessor._check_ffmpeg\<close>\<close>
  "ffmpeg_missing_msg =
     ''FFmpeg''
     @ [CHR 0xE6, CHR 0x9C, CHR 0xAA, CHR 0xE5, CHR 0xAE, CHR 0x89, CHR 0xE8, CHR 0xA3, CHR 0x85,
        CHR 0xE6, CHR 0x88, CHR 0x96, CHR 0xE4, CHR 0xB8, CHR 0x8D, CHR 0xE5, CHR 0x9C, CHR 0xA8]
     @ ''PATH''
     @ [CHR 0xE4, CHR 0xB8, CHR 0xAD, CHR 0xE3, CHR 0x80, CHR 0x82, CHR 0x0A,
        CHR 0xE8, CHR 0xAF, CHR 0xB7, CHR 0xE5, CHR 0xAE, CHR 0x89, CHR 0xE8, CHR 0xA3, CHR 0x85]
     @ ''FFmpeg:'' @ [CHR 0x0A] @ ''  macOS: brew install ffmpeg''
     @ [CHR 0x0A] @ ''  Ubuntu: sudo apt install ffmpeg''
     @ [CHR 0x0A] @ ''  Windows: choco install ffmpeg''"

section \<open>Data model\<close>

text \<open>
  A token count as Python sees it is an integer or \<open>None\<close>: an \<open>int option\<close>. An
  attribute of the usage object of a response is either absent from the object, or
  present with such a value; a client that fills the fields the service left out makes
  them present with the value \<open>None\<close>.
\<close>

datatype attr = Absent | Present "int option"

record usage =
  prompt_tokens :: attr
  input_tokens :: attr
  completion_tokens :: attr
  output_tokens :: attr
  total_tokens :: attr

definition getattr0 :: "attr \<Rightarrow> int option" where
  \<comment> \<open>\<open>getattr(u, name, 0)\<close>: the default only stands in for an absent attribute\<close>
  "getattr0 a = (case a of Absent \<Rightarrow> Some 0 | Present v \<Rightarrow> v)"

definition py_or :: "int option \<Rightarrow> int option \<Rightarrow> int option" where
  \<comment> \<open>Python's \<open>a or b\<close>: \<open>a\<close> when it is truthy, so neither \<open>None\<close> nor 0\<close>
  "py_or a b = (case a of None \<Rightarrow> b | Some n \<Rightarrow> if n \<noteq> 0 then a else b)"

definition type_error_msg :: string where
  \<comment> \<open>\<open>str(e)\<close> of the \<open>TypeError\<close> that \<open>+=\<close> raises on an integer and \<open>None\<close>\<close>
  "type_error_msg =
     ''unsupported operand type(s) for +=: '' @ [CHR 0x27] @ ''int'' @ [CHR 0x27]
     @ '' and '' @ [CHR 0x27] @ ''NoneType'' @ [CHR 0x27]"

definition iadd :: "int \<Rightarrow> int option \<Rightarrow> string + int" where
  \<comment> \<open>\<open>x += v\<close> on an integer \<open>x\<close>\<close>
  "iadd x v = (case v of None \<Rightarrow> Inl type_error_msg | Some n \<Rightarrow> Inr (x + n))"

text \<open>The response of \<open>client.audio.transcriptions.create\<close>; absent attributes are \<open>None\<close>.\<close>

record response =
  resp_text :: string
  resp_language :: "string option"
  resp_duration :: "real option"
  resp_usage :: "usage option"

record api_request =
  req_model :: string
  req_file :: path
  req_language :: "string option"
  req_format :: string

text \<open>The dict \<open>total_usage\<close> of \<open>_transcribe_chunked\<close>.\<close>

record token_totals =
  sum_prompt_tokens :: int
  sum_completion_tokens :: int
  sum_total_tokens :: int

datatype usage_value = ApiUsage usage | Totals token_totals

type_synonym segment = "real \<times> real \<times> string"

text \<open>
  The dict that \<open>transcribe\<close> returns. The key \<open>language\<close> is always present and may
  hold Python's \<open>None\<close>; each other optional field is \<open>None\<close> when the dict has no such key.
\<close>

record transcript =
  t_text :: string
  t_language :: "string option"
  t_duration :: "real option"
  t_segments :: "segment list option"
  t_usage :: "usage_value option"

text \<open>The dict that \<open>_transcribe_part\<close> returns.\<close>

record part =
  p_index :: nat
  p_text :: string
  p_usage :: "usage option"

section \<open>Environment and effects\<close>

text \<open>
  The module constructs an \<open>AudioProcessor\<close> at three places; each construction runs
  \<open>ffmpeg -version\<close> and may fail on its own.
\<close>

datatype site = DurationCheck | Compression | Chunking

text \<open>
  What the collaborators answer during one job:
  \<^item> \<open>ffmpeg_ok\<close>: whether \<open>_check_ffmpeg\<close> passes at a construction site;
  \<^item> \<open>ffprobe\<close>: the duration \<open>ffprobe\<close> reports, \<open>None\<close> when anything in the
    \<open>try\<close> of \<open>_get_audio_duration\<close> raises;
  \<^item> \<open>getsize\<close>: \<open>os.path.getsize\<close> of an existing file, in bytes; it is taken not to
    raise, in the \<open>print\<close> of line 117 as at line 142, and so is \<open>open\<close>: the job has
    checked that the file exists;
  \<^item> \<open>ffmpeg_compress\<close>: the \<open>ffmpeg\<close> run of \<open>compress_for_api\<close> on input, bitrate
    and output; \<open>Some msg\<close> is a \<open>CalledProcessError\<close> with that diagnostic;
  \<^item> \<open>ffmpeg_segment\<close>: the \<open>ffmpeg\<close> run of \<open>split_audio\<close>; \<open>Inl msg\<close> is a
    \<open>CalledProcessError\<close>, \<open>Inr chunks\<close> the sorted \<open>glob\<close> of the files written;
  \<^item> \<open>api_create\<close>: one call of \<open>client.audio.transcriptions.create\<close>; \<open>Inl m\<close> is an
    exception with \<open>str(e) = m\<close>;
  \<^item> \<open>remove_fails\<close>: whether \<open>os.remove\<close> of an existing file raises;
  \<^item> \<open>whisper_load\<close>, \<open>whisper_run\<close>: the on-device model;
  \<^item> \<open>as_completed\<close>: the order in which the futures of a batch of the given size
    complete, as indices into the batch.
\<close>

record env =
  ffmpeg_ok :: "site \<Rightarrow> bool"
  ffprobe :: "path \<Rightarrow> real option"
  getsize :: "path \<Rightarrow> nat"
  ffmpeg_compress :: "path \<Rightarrow> nat \<Rightarrow> path \<Rightarrow> string option"
  ffmpeg_segment :: "path \<Rightarrow> nat \<Rightarrow> string + path list"
  api_create :: "api_request \<Rightarrow> string + response"
  remove_fails :: "path \<Rightarrow> bool"
  whisper_load :: "string \<Rightarrow> string option"
  whisper_run :: "path \<Rightarrow> string option \<Rightarrow> bool \<Rightarrow> exn + transcript"
  as_completed :: "nat \<Rightarrow> nat list"

text \<open>
  The observable effects of a job, in order: a percentage handed to the progress callback
  (its label is not modelled: it embeds formatted floats), a processor construction, a
  call of \<open>compress_for_api\<close> or \<open>split_audio\<close>, a remote call, a call of \<open>os.remove\<close>.
\<close>

datatype event =
    Progress real
  | NewProcessor site
  | Compress path
  | Split path
  | ApiCall api_request
  | Remove path

record world =
  files :: "path set"
  trace :: "event list"

definition note_event :: "event \<Rightarrow> world \<Rightarrow> world" where
  "note_event e w = w\<lparr>trace := trace w @ [e]\<rparr>"

definition emit :: "bool \<Rightarrow> real \<Rightarrow> world \<Rightarrow> world" where
  \<comment> \<open>\<open>if progress_callback: progress_callback(pct, ...)\<close>\<close>
  "emit cb pct w = (if cb then note_event (Progress pct) w else w)"

definition new_processor :: "env \<Rightarrow> site \<Rightarrow> world \<Rightarrow> (exn + unit) \<times> world" where
  \<comment> \<open>\<open>AudioProcessor()\<close>: \<open>_check_ffmpeg\<close> raises \<open>RuntimeError\<close> when \<open>ffmpeg\<close> does not run\<close>
  "new_processor env s w =
     (if ffmpeg_ok env s then (Inr (), note_event (NewProcessor s) w)
      else (Inl (RuntimeError ffmpeg_missing_msg), note_event (NewProcessor s) w))"

section \<open>The audio processor\<close>

definition get_audio_duration :: "env \<Rightarrow> path \<Rightarrow> real" where
  "get_audio_duration env audio_path =
     (case ffprobe env audio_path of None \<Rightarrow> 0 | Some d \<Rightarrow> d)"

definition compressed_path :: "path \<Rightarrow> path" where
  \<comment> \<open>lines 177 to 179, for the default \<open>output_path\<close>\<close>
  "compressed_path input_path = fst (splitext input_path) @ ''_compressed.mp3''"

definition bitrate_kbps :: "env \<Rightarrow> path \<Rightarrow> nat" where
  \<comment> \<open>lines 181 to 195, for the default \<open>max_size_mb = 24\<close>; \<open>int\<close> of a positive float
      rounds down\<close>
  "bitrate_kbps env input_path =
     (let duration = get_audio_duration env input_path
      in if duration \<le> 0 then 32
         else min (max (nat \<lfloor>24 * 1024 * 1024 * 8 / duration / 1000\<rfloor>) 12) 64)"

definition compress_for_api :: "env \<Rightarrow> bool \<Rightarrow> path \<Rightarrow> world \<Rightarrow> (exn + path) \<times> world" where
  "compress_for_api env cb input_path w0 =
     (let w = note_event (Compress input_path) w0 in
      if input_path \<notin> files w then (Inl (FileNotFoundError (not_found_msg @ input_path)), w)
      else
        let output_path = compressed_path input_path;
            w1 = emit cb 62 w
        in case ffmpeg_compress env input_path (bitrate_kbps env input_path) output_path of
             Some msg \<Rightarrow> (Inl (Exception (compress_failed_msg @ msg)), w1)
           | None \<Rightarrow> (Inr output_path, w1\<lparr>files := insert output_path (files w1)\<rparr>))"

definition split_audio :: "env \<Rightarrow> path \<Rightarrow> nat \<Rightarrow> world \<Rightarrow> (exn + path list) \<times> world" where
  "split_audio env input_path segment_seconds w0 =
     (let w = note_event (Split input_path) w0 in
      if input_path \<notin> files w then (Inl (FileNotFoundError (not_found_msg @ input_path)), w)
      else case ffmpeg_segment env input_path segment_seconds of
             Inl msg \<Rightarrow> (Inl (Exception (split_failed_msg @ msg)), w)
           | Inr chunks \<Rightarrow> (Inr chunks, w\<lparr>files := files w \<union> set chunks\<rparr>))"

section \<open>The chunk dispatcher\<close>

definition part_request :: "string \<Rightarrow> path \<Rightarrow> string option \<Rightarrow> api_request" where
  "part_request model chunk_path language =
     \<lparr>req_model = model, req_file = chunk_path, req_language = language, req_format = ''json''\<rparr>"

definition transcribe_part ::
  "env \<Rightarrow> nat \<Rightarrow> nat \<Rightarrow> path \<Rightarrow> string \<Rightarrow> string option \<Rightarrow> string + part" where
  \<comment> \<open>\<open>_transcribe_part\<close>: the exception of the call is re-raised as it is\<close>
  "transcribe_part env i total_chunks chunk_path model language =
     (case api_create env (part_request model chunk_path language) of
        Inl m \<Rightarrow> Inl m
      | Inr r \<Rightarrow> Inr \<lparr>p_index = i, p_text = resp_text r, p_usage = resp_usage r\<rparr>)"

definition p_tokens :: "usage \<Rightarrow> int option" where
  \<comment> \<open>line 346\<close>
  "p_tokens u = py_or (getattr0 (prompt_tokens u)) (getattr0 (input_tokens u))"

definition c_tokens :: "usage \<Rightarrow> int option" where
  \<comment> \<open>line 347\<close>
  "c_tokens u = py_or (getattr0 (completion_tokens u)) (getattr0 (output_tokens u))"

definition zero_usage :: token_totals where
  \<comment> \<open>line 317\<close>
  "zero_usage = \<lparr>sum_prompt_tokens = 0, sum_completion_tokens = 0, sum_total_tokens = 0\<rparr>"

definition account_usage :: "usage option \<Rightarrow> token_totals \<Rightarrow> string + token_totals" where
  \<comment> \<open>lines 343 to 351: \<open>if data['usage']:\<close> and the three additions in their order;
      \<open>Inl\<close> is the \<open>TypeError\<close> of the first addition of \<open>None\<close>\<close>
  "account_usage x total_usage =
     (case x of
        None \<Rightarrow> Inr total_usage
      | Some u \<Rightarrow>
          (case iadd (sum_prompt_tokens total_usage) (p_tokens u) of
             Inl e \<Rightarrow> Inl e
           | Inr p \<Rightarrow>
               (case iadd (sum_completion_tokens total_usage) (c_tokens u) of
                  Inl e \<Rightarrow> Inl e
                | Inr c \<Rightarrow>
                    (case iadd (sum_total_tokens total_usage) (getattr0 (total_tokens u)) of
                       Inl e \<Rightarrow> Inl e
                     | Inr t \<Rightarrow>
                         Inr \<lparr>sum_prompt_tokens = p, sum_completion_tokens = c,
                              sum_total_tokens = t\<rparr>))))"

text \<open>The mutable locals of the collection loop, and the effects so far.\<close>

record batch =
  results :: "string option list"
  total_usage :: token_totals
  completed_count :: nat
  effects :: world

definition record_part :: "bool \<Rightarrow> nat \<Rightarrow> nat \<Rightarrow> part \<Rightarrow> batch \<Rightarrow> string + batch" where
  \<comment> \<open>the body of the inner \<open>try\<close>, lines 339 to 356, for a future that returned \<open>d\<close>;
      \<open>Inl\<close> is \<open>str(e)\<close> of an exception raised there\<close>
  "record_part cb total_chunks index d b =
     (case account_usage (p_usage d) (total_usage b) of
        Inl e \<Rightarrow> Inl e
      | Inr tu \<Rightarrow>
          (let c = completed_count b + 1
           in Inr \<lparr>results = (results b)[index := Some (p_text d)],
                   total_usage = tu,
                   completed_count = c,
                   effects = emit cb (85 + (real c / real total_chunks) * 14) (effects b)\<rparr>))"

text \<open>
  The loop over \<open>as_completed\<close>: the futures are visited in completion order. The first
  one whose \<open>result()\<close> raises, or whose accounting raises, ends the loop with the
  exception of line 360; the locals are dead from then on, and the effects are those
  before that future.
\<close>

fun collect ::
  "(nat \<Rightarrow> string + part) \<Rightarrow> bool \<Rightarrow> nat \<Rightarrow> nat list \<Rightarrow> batch \<Rightarrow> exn option \<times> batch" where
  "collect future cb total_chunks [] b = (None, b)"
| "collect future cb total_chunks (index # rest) b =
     (case future index of
        Inl m \<Rightarrow> (Some (Exception (chunk_failed_msg index m)), b)
      | Inr d \<Rightarrow>
          (case record_part cb total_chunks index d b of
             Inl m \<Rightarrow> (Some (Exception (chunk_failed_msg index m)), b)
           | Inr b' \<Rightarrow> collect future cb total_chunks rest b'))"

text \<open>
  The \<open>finally\<close> block, lines 364 to 369: \<open>os.remove\<close> is called on every chunk file
  that exists; when it raises, the exception is swallowed and the file stays.
\<close>

fun cleanup :: "env \<Rightarrow> path list \<Rightarrow> world \<Rightarrow> world" where
  "cleanup env [] w = w"
| "cleanup env (chunk_path # rest) w =
     cleanup env rest
       (if chunk_path \<in> files w then
          (if remove_fails env chunk_path then note_event (Remove chunk_path) w
           else note_event (Remove chunk_path) (w\<lparr>files := files w - {chunk_path}\<rparr>))
        else w)"

definition join_none_msg :: "string option list \<Rightarrow> string" where
  \<comment> \<open>the \<open>TypeError\<close> of \<open>str.join\<close> on a list that still holds \<open>None\<close>\<close>
  "join_none_msg rs =
     ''sequence item '' @ str_nat (length (takeWhile (\<lambda>r. r \<noteq> None) rs))
     @ '': expected str instance, NoneType found''"

text \<open>
  \<open>_transcribe_chunked\<close>. Every segment is submitted before any result is collected, and
  leaving the executor waits for all of them, so each segment's call is made whatever the
  outcome; the calls are logged in submission order.
\<close>

definition transcribe_chunked ::
  "env \<Rightarrow> bool \<Rightarrow> path \<Rightarrow> string \<Rightarrow> string option \<Rightarrow> world \<Rightarrow> (exn + transcript) \<times> world" where
  "transcribe_chunked env cb audio_path model language w0 =
     (case new_processor env Chunking w0 of
        (Inl e, w) \<Rightarrow> (Inl e, w)
      | (Inr _, w) \<Rightarrow>
          (case split_audio env audio_path 298 (emit cb 84 w) of
             (Inl e, w1) \<Rightarrow> (Inl e, w1)
           | (Inr chunks, w1) \<Rightarrow>
               (let total_chunks = length chunks;
                    future =
                      (\<lambda>i. transcribe_part env i total_chunks (chunks ! i) model language);
                    w2 = fold (\<lambda>chunk_path.
                                 note_event (ApiCall (part_request model chunk_path language)))
                           chunks w1;
                    (failure, b) =
                      collect future cb total_chunks (as_completed env total_chunks)
                        \<lparr>results = replicate total_chunks None,
                         total_usage = zero_usage,
                         completed_count = 0,
                         effects = w2\<rparr>;
                    w3 = cleanup env chunks (effects b)
                in case failure of
                     Some e \<Rightarrow> (Inl e, w3)
                   | None \<Rightarrow>
                       (case those (results b) of
                          None \<Rightarrow> (Inl (TypeError (join_none_msg (results b))), w3)
                        | Some texts \<Rightarrow>
                            (Inr \<lparr>t_text = join [CHR 0x0A, CHR 0x0A] texts,
                                  t_language = language,
                                  t_duration = None,
                                  t_segments = Some [],
                                  t_usage = Some (Totals (total_usage b))\<rparr>,
                             emit cb 99 w3)))))"

section \<open>The transcription orchestrator\<close>

record transcriber =
  model_name :: string
  api_key :: "string option"
  model_loaded :: bool

definition new_transcriber :: "string \<Rightarrow> string option \<Rightarrow> transcriber" where
  \<comment> \<open>\<open>__init__\<close>\<close>
  "new_transcriber model_name_or_path key =
     \<lparr>model_name = (if model_name_or_path = ''turbo'' then ''large-v3-turbo''
                     else model_name_or_path),
      api_key = key,
      model_loaded = False\<rparr>"

definition is_api_model :: "transcriber \<Rightarrow> bool" where
  "is_api_model t =
     (model_name t \<in> set [''gpt-4o-transcribe'', ''gpt-4o-mini-transcribe'', ''whisper-1''])"

definition load_model :: "env \<Rightarrow> bool \<Rightarrow> transcriber \<Rightarrow> world \<Rightarrow> (exn + unit) \<times> world" where
  "load_model env cb t w =
     (if is_api_model t then
        (if api_key t = None \<or> api_key t = Some [] then (Inl (ValueError need_key_msg), w)
         else (Inr (), w))
      else if model_loaded t then (Inr (), w)
      else
        (let w1 = emit cb 75 w
         in case whisper_load env (model_name t) of
              Some m \<Rightarrow> (Inl (Exception (load_failed_msg @ m)), w1)
            | None \<Rightarrow> (Inr (), emit cb 80 w1)))"

definition duration_check :: "env \<Rightarrow> path \<Rightarrow> world \<Rightarrow> bool \<times> world" where
  \<comment> \<open>lines 108 to 124: the value of \<open>should_chunk\<close>; an exception in the \<open>try\<close> gives \<open>False\<close>\<close>
  "duration_check env audio_path w0 =
     (case new_processor env DurationCheck w0 of
        (Inl e, w) \<Rightarrow> (False, w)
      | (Inr _, w) \<Rightarrow> (get_audio_duration env audio_path > 298, w))"

definition too_large :: "string \<Rightarrow> bool" where
  \<comment> \<open>line 186\<close>
  "too_large error_str =
     (sublist ''input_too_large'' error_str \<or> sublist ''maximum context'' error_str)"

definition response_fmt :: "transcriber \<Rightarrow> string" where
  \<comment> \<open>line 138\<close>
  "response_fmt t = (if prefix ''gpt-4o'' (model_name t) then ''json'' else ''verbose_json'')"

definition upload_request :: "transcriber \<Rightarrow> path \<Rightarrow> string option \<Rightarrow> api_request" where
  \<comment> \<open>the arguments of the call of lines 156 to 161\<close>
  "upload_request t audio_path language =
     \<lparr>req_model = model_name t, req_file = audio_path, req_language = language,
      req_format = response_fmt t\<rparr>"

definition fallback_request :: "path \<Rightarrow> string option \<Rightarrow> api_request" where
  \<comment> \<open>the arguments of the call of lines 197 to 202\<close>
  "fallback_request audio_path language =
     \<lparr>req_model = ''whisper-1'', req_file = audio_path, req_language = language,
      req_format = ''verbose_json''\<rparr>"

definition api_call :: "env \<Rightarrow> api_request \<Rightarrow> world \<Rightarrow> (string + response) \<times> world" where
  "api_call env req w = (api_create env req, note_event (ApiCall req) w)"

definition getattr_language :: "response \<Rightarrow> string" where
  \<comment> \<open>\<open>getattr(transcript, 'language', 'auto')\<close>\<close>
  "getattr_language r = (case resp_language r of None \<Rightarrow> ''auto'' | Some l \<Rightarrow> l)"

definition getattr_duration :: "response \<Rightarrow> real" where
  \<comment> \<open>\<open>getattr(transcript, 'duration', 0.0)\<close>\<close>
  "getattr_duration r = (case resp_duration r of None \<Rightarrow> 0 | Some d \<Rightarrow> d)"

definition prepare_upload :: "env \<Rightarrow> bool \<Rightarrow> path \<Rightarrow> world \<Rightarrow> (exn + path) \<times> world" where
  \<comment> \<open>lines 142 to 153: the path to upload; \<open>Inl\<close> when the processor cannot be built,
      which leaves \<open>audio_path\<close> as it was\<close>
  "prepare_upload env cb audio_path w =
     (if real (getsize env audio_path) / (1024 * 1024) > 24 then
        (case new_processor env Compression (emit cb 83 w) of
           (Inl e, w1) \<Rightarrow> (Inl e, w1)
         | (Inr _, w1) \<Rightarrow>
             (case compress_for_api env cb audio_path w1 of
                (Inl e, w2) \<Rightarrow> (Inr audio_path, w2)
              | (Inr compressed, w2) \<Rightarrow> (Inr compressed, w2)))
      else (Inr audio_path, w))"

definition recover ::
  "env \<Rightarrow> bool \<Rightarrow> transcriber \<Rightarrow> path \<Rightarrow> string option \<Rightarrow> string \<Rightarrow> world
     \<Rightarrow> (exn + transcript) \<times> world" where
  \<comment> \<open>the handler of lines 182 to 211, entered with \<open>str(e)\<close> and the current \<open>audio_path\<close>\<close>
  "recover env cb t audio_path language error_str w =
     (if too_large error_str then
        transcribe_chunked env cb audio_path (model_name t) language w
      else if model_name t \<noteq> ''whisper-1'' then
        (case api_call env (fallback_request audio_path language) w of
           (Inl m2, w1) \<Rightarrow> (Inl (Exception (fallback_failed_msg @ m2)), w1)
         | (Inr r, w1) \<Rightarrow>
             (Inr \<lparr>t_text = resp_text r, t_language = Some (getattr_language r),
                   t_duration = Some (getattr_duration r), t_segments = None,
                   t_usage = None\<rparr>, w1))
      else (Inl (Exception (api_failed_msg @ error_str)), w))"

definition single_shot ::
  "env \<Rightarrow> bool \<Rightarrow> transcriber \<Rightarrow> path \<Rightarrow> string option \<Rightarrow> world
     \<Rightarrow> (exn + transcript) \<times> world" where
  \<comment> \<open>lines 131 to 211\<close>
  "single_shot env cb t audio_path language w0 =
     (case prepare_upload env cb audio_path (emit cb 85 w0) of
        (Inl e, w1) \<Rightarrow> recover env cb t audio_path language (str_exn e) w1
      | (Inr upload_path, w1) \<Rightarrow>
          (case api_call env (upload_request t upload_path language) w1 of
             (Inl m, w2) \<Rightarrow> recover env cb t upload_path language m w2
           | (Inr r, w2) \<Rightarrow>
               (Inr \<lparr>t_text = resp_text r, t_language = Some (getattr_language r),
                     t_duration = Some (getattr_duration r), t_segments = None,
                     t_usage = map_option ApiUsage (resp_usage r)\<rparr>,
                emit cb 99 w2)))"

definition transcribe_local ::
  "env \<Rightarrow> bool \<Rightarrow> path \<Rightarrow> string option \<Rightarrow> world \<Rightarrow> (exn + transcript) \<times> world" where
  \<comment> \<open>lines 214 to 245, with \<open>fp16 = True\<close> on the first run\<close>
  "transcribe_local env cb audio_path language w =
     (case whisper_run env audio_path language True of
        Inr result \<Rightarrow> (Inr result, emit cb 99 w)
      | Inl (RuntimeError m) \<Rightarrow>
          (if sublist ''NaN'' m then (whisper_run env audio_path language False, w)
           else (Inl (RuntimeError m), w))
      | Inl e \<Rightarrow> (Inl (Exception (local_failed_msg @ str_exn e)), w))"

definition transcribe ::
  "env \<Rightarrow> bool \<Rightarrow> transcriber \<Rightarrow> path \<Rightarrow> string option \<Rightarrow> world
     \<Rightarrow> (exn + transcript) \<times> world" where
  "transcribe env cb t audio_path language w =
     (if audio_path \<notin> files w then
        (Inl (FileNotFoundError (not_found_msg @ audio_path)), w)
      else
        (case load_model env cb t w of
           (Inl e, w1) \<Rightarrow> (Inl e, w1)
         | (Inr _, w1) \<Rightarrow>
             (let w2 = emit cb 82 w1
              in if is_api_model t then
                   (let (should_chunk, w3) = duration_check env audio_path w2
                    in if should_chunk then
                         transcribe_chunked env cb audio_path (model_name t) language
                           (emit cb 83 w3)
                       else single_shot env cb t audio_path language w3)
                 else transcribe_local env cb audio_path language w2)))"

text \<open>
  The percentages, the remote calls, the compressions and the processor constructions of
  a trace, in order. \<open>_transcribe_chunked\<close> starts by constructing a processor, so a job
  entered the chunked mode when \<open>Chunking\<close> is among its constructions.
\<close>

fun percentages :: "event list \<Rightarrow> real list" where
  "percentages [] = []"
| "percentages (Progress pct # es) = pct # percentages es"
| "percentages (_ # es) = percentages es"

fun api_calls :: "event list \<Rightarrow> api_request list" where
  "api_calls [] = []"
| "api_calls (ApiCall req # es) = req # api_calls es"
| "api_calls (_ # es) = api_calls es"

fun compressions :: "event list \<Rightarrow> path list" where
  "compressions [] = []"
| "compressions (Compress input_path # es) = input_path # compressions es"
| "compressions (_ # es) = compressions es"

fun processors :: "event list \<Rightarrow> site list" where
  "processors [] = []"
| "processors (NewProcessor s # es) = s # processors es"
| "processors (_ # es) = processors es"

section \<open>Example jobs\<close>

text \<open>
  Concrete environments on which the definitions are run. In \<open>studio_env\<close> the tools
  work, the recording \<open>talk.wav\<close> lasts 100 seconds and has 1000 bytes, the segmenter
  writes two segments, the service answers each request with the name of the file it was
  sent, files can be removed, and the later segment completes first.
\<close>

definition echo :: "api_request \<Rightarrow> response" where
  "echo req =
     \<lparr>resp_text = req_file req, resp_language = None, resp_duration = None,
      resp_usage = None\<rparr>"

definition studio_env :: env where
  "studio_env =
     \<lparr>ffmpeg_ok = (\<lambda>s. True),
      ffprobe = (\<lambda>p. Some 100),
      getsize = (\<lambda>p. 1000),
      ffmpeg_compress = (\<lambda>p bitrate out. None),
      ffmpeg_segment = (\<lambda>p seconds. Inr [''talk_part000.mp3'', ''talk_part001.mp3'']),
      api_create = (\<lambda>req. Inr (echo req)),
      remove_fails = (\<lambda>p. False),
      whisper_load = (\<lambda>name. None),
      whisper_run = (\<lambda>p language fp16. Inl (RuntimeError ''no local model'')),
      as_completed = (\<lambda>n. rev [0..<n])\<rparr>"

definition studio :: world where
  "studio = \<lparr>files = {''talk.wav''}, trace = []\<rparr>"

definition gpt4o :: transcriber where
  "gpt4o = new_transcriber ''gpt-4o-transcribe'' (Some ''sk-test'')"

definition whisper1 :: transcriber where
  "whisper1 = new_transcriber ''whisper-1'' (Some ''sk-test'')"

definition timed_env :: "real \<Rightarrow> env" where
  \<comment> \<open>the same, for a recording of \<open>d\<close> seconds\<close>
  "timed_env d = studio_env\<lparr>ffprobe := (\<lambda>p. Some d)\<rparr>"

definition flaky_env :: env where
  \<comment> \<open>the first segment completes first, then the call for the second segment times out\<close>
  "flaky_env =
     studio_env\<lparr>api_create :=
       (\<lambda>req. if req_file req = ''talk_part001.mp3'' then Inl ''timeout'' else Inr (echo req)),
       as_completed := (\<lambda>n. [0..<n])\<rparr>"

definition sticky_env :: env where
  \<comment> \<open>the same, and the file of the first segment cannot be removed\<close>
  "sticky_env = flaky_env\<lparr>remove_fails := (\<lambda>p. p = ''talk_part000.mp3'')\<rparr>"

definition metered :: "attr \<Rightarrow> api_request \<Rightarrow> response" where
  \<comment> \<open>usage of 10 and 5 tokens for the first segment, 7 and 3 for the other, with the
      given \<open>total_tokens\<close> attribute\<close>
  "metered reported req =
     (echo req)\<lparr>resp_usage := Some
        (if req_file req = ''talk_part000.mp3''
         then \<lparr>prompt_tokens = Present (Some 10), input_tokens = Absent,
               completion_tokens = Present (Some 5), output_tokens = Absent,
               total_tokens = reported\<rparr>
         else \<lparr>prompt_tokens = Present (Some 7), input_tokens = Absent,
               completion_tokens = Present (Some 3), output_tokens = Absent,
               total_tokens = reported\<rparr>)\<rparr>"

definition metered_env :: "attr \<Rightarrow> env" where
  "metered_env reported =
     studio_env\<lparr>api_create := (\<lambda>req. Inr (metered reported req))\<rparr>"

definition token_style :: "api_request \<Rightarrow> response" where
  \<comment> \<open>usage under the other field names: the first segment has only \<open>input_tokens\<close>,
      \<open>output_tokens\<close> and a total; the second has \<open>prompt_tokens\<close> 0, \<open>completion_tokens\<close>
      \<open>None\<close> and no total\<close>
  "token_style req =
     (echo req)\<lparr>resp_usage := Some
        (if req_file req = ''talk_part000.mp3''
         then \<lparr>prompt_tokens = Absent, input_tokens = Present (Some 10),
               completion_tokens = Absent, output_tokens = Present (Some 5),
               total_tokens = Present (Some 15)\<rparr>
         else \<lparr>prompt_tokens = Present (Some 0), input_tokens = Present (Some 7),
               completion_tokens = Present None, output_tokens = Present (Some 3),
               total_tokens = Absent\<rparr>)\<rparr>"

definition token_style_env :: env where
  "token_style_env = studio_env\<lparr>api_create := (\<lambda>req. Inr (token_style req))\<rparr>"

definition offline_env :: env where
  \<comment> \<open>every remote call fails, with a reason that depends on the model\<close>
  "offline_env =
     studio_env\<lparr>api_create :=
       (\<lambda>req. if req_model req = ''whisper-1'' then Inl ''quota exceeded''
              else Inl ''connection reset'')\<rparr>"

definition strict_env :: env where
  \<comment> \<open>the service rejects whole-file uploads as too large and accepts segments\<close>
  "strict_env =
     studio_env\<lparr>api_create :=
       (\<lambda>req. if req_file req = ''talk.wav'' then Inl ''input_too_large''
              else Inr (echo req))\<rparr>"

definition big_env :: env where
  \<comment> \<open>a recording of 30 MB\<close>
  "big_env = studio_env\<lparr>getsize := (\<lambda>p. 30 * 1024 * 1024)\<rparr>"

definition big_broken_env :: env where
  \<comment> \<open>a recording of 30 MB that \<open>ffmpeg\<close> fails to compress\<close>
  "big_broken_env = big_env\<lparr>ffmpeg_compress := (\<lambda>p bitrate out. Some ''encoder error'')\<rparr>"

definition unprobed_env :: env where
  \<comment> \<open>an hour of audio, with \<open>ffmpeg\<close> failing to start for the duration check only\<close>
  "unprobed_env =
     studio_env\<lparr>ffmpeg_ok := (\<lambda>s. s \<noteq> DurationCheck), ffprobe := (\<lambda>p. Some 3600)\<rparr>"

section \<open>Properties of the chunk dispatcher\<close>

lemma files_note_event [simp]: "files (note_event e w) = files w"
  by (simp add: note_event_def)

lemma files_emit [simp]: "files (emit cb pct w) = files w"
  by (simp add: emit_def)


subsection \<open>Usage accounting\<close>

lemma account_usage_raises:
  "isl (account_usage x tu)
     \<longleftrightarrow> (\<exists>u. x = Some u
            \<and> (p_tokens u = None \<or> c_tokens u = None \<or> getattr0 (total_tokens u) = None))"
  by (auto simp: account_usage_def iadd_def split: option.splits)


lemma account_usage_Inr:
  "\<not> isl (account_usage x zero_usage) \<Longrightarrow> \<exists>tu'. account_usage x tu = Inr tu'"
  using account_usage_raises [of x tu] account_usage_raises [of x zero_usage]
  by (cases "account_usage x tu") auto

lemma account_usage_adds:
  assumes "case x of None \<Rightarrow> p = 0 \<and> c = 0 \<and> t = 0
           | Some u \<Rightarrow> p_tokens u = Some p \<and> c_tokens u = Some c
                        \<and> getattr0 (total_tokens u) = Some t"
  shows "account_usage x tu =
           Inr \<lparr>sum_prompt_tokens = sum_prompt_tokens tu + p,
                sum_completion_tokens = sum_completion_tokens tu + c,
                sum_total_tokens = sum_total_tokens tu + t\<rparr>"
  using assms by (cases x) (simp_all add: account_usage_def iadd_def)

subsection \<open>The collection loop\<close>





lemma collect_results:
  assumes "\<forall>i\<in>set order. future i = Inr (d i)"
    and "fst (collect future cb n order b) = None"
  shows "results (snd (collect future cb n order b))
           = fold (\<lambda>i rs. rs[i := Some (p_text (d i))]) order (results b)"
  using assms
proof (induction order arbitrary: b)
  case Nil
  then show ?case by simp
next
  case (Cons index rest)
  then show ?case
    by (cases "record_part cb n index (d index) b")
       (auto simp: record_part_def Let_def split: sum.splits)
qed

lemma collect_completes:
  assumes "\<forall>i\<in>set order. future i = Inr (d i)
             \<and> \<not> isl (account_usage (p_usage (d i)) zero_usage)"
  shows "fst (collect future cb n order b) = None"
  using assms
proof (induction order arbitrary: b)
  case Nil
  then show ?case by simp
next
  case (Cons index rest)
  from Cons.prems have "\<not> isl (account_usage (p_usage (d index)) zero_usage)" by simp
  from account_usage_Inr [OF this, of "total_usage b"]
  obtain b' where "record_part cb n index (d index) b = Inr b'"
    by (auto simp: record_part_def Let_def)
  with Cons show ?case by simp
qed

lemma collect_totals:
  assumes "\<forall>i\<in>set order. future i = Inr (d i)
             \<and> (case p_usage (d i) of
                  None \<Rightarrow> P i = 0 \<and> C i = 0 \<and> T i = 0
                | Some u \<Rightarrow> p_tokens u = Some (P i) \<and> c_tokens u = Some (C i)
                             \<and> getattr0 (total_tokens u) = Some (T i))"
  shows "fst (collect future cb n order b) = None
       \<and> total_usage (snd (collect future cb n order b))
           = \<lparr>sum_prompt_tokens = sum_prompt_tokens (total_usage b) + sum_list (map P order),
              sum_completion_tokens =
                sum_completion_tokens (total_usage b) + sum_list (map C order),
              sum_total_tokens = sum_total_tokens (total_usage b) + sum_list (map T order)\<rparr>"
  using assms
proof (induction order arbitrary: b)
  case Nil
  then show ?case by simp
next
  case (Cons index rest)
  from Cons.prems have
    "case p_usage (d index) of
       None \<Rightarrow> P index = 0 \<and> C index = 0 \<and> T index = 0
     | Some u \<Rightarrow> p_tokens u = Some (P index) \<and> c_tokens u = Some (C index)
                  \<and> getattr0 (total_tokens u) = Some (T index)"
    by simp
  note step = account_usage_adds [OF this, of "total_usage b"]
  from Cons.prems have rest: "\<forall>i\<in>set rest. future i = Inr (d i)
             \<and> (case p_usage (d i) of
                  None \<Rightarrow> P i = 0 \<and> C i = 0 \<and> T i = 0
                | Some u \<Rightarrow> p_tokens u = Some (P i) \<and> c_tokens u = Some (C i)
                             \<and> getattr0 (total_tokens u) = Some (T i))"
    by simp
  from Cons.prems have here: "future index = Inr (d index)" by simp
  show ?case
    by (simp add: here record_part_def step Let_def Cons.IH [OF rest])
qed

lemma fold_update_length [simp]:
  "length (fold (\<lambda>i rs. rs[i := f i]) order rs) = length rs"
  by (induction order arbitrary: rs) auto

lemma fold_update_nth:
  "j < length rs \<Longrightarrow>
   fold (\<lambda>i rs. rs[i := f i]) order rs ! j = (if j \<in> set order then f j else rs ! j)"
  by (induction order arbitrary: rs) (auto simp: nth_list_update)

lemma fold_update_all:
  "set order = {0..<n} \<Longrightarrow> length rs = n \<Longrightarrow>
   fold (\<lambda>i rs. rs[i := f i]) order rs = map f [0..<n]"
  by (rule nth_equalityI) (auto simp: fold_update_nth)

lemma those_map_Some [simp]: "those (map (\<lambda>i. Some (f i)) xs) = Some (map f xs)"
  by (induction xs) auto

lemma sum_list_completion_order:
  fixes f :: "nat \<Rightarrow> int"
  shows "distinct order \<Longrightarrow> set order = {0..<n} \<Longrightarrow> sum_list (map f order) = (\<Sum>i<n. f i)"
  by (simp add: sum_list_distinct_conv_sum_set atLeast0LessThan)

subsection \<open>The batch\<close>

lemma chunked_after_split:
  assumes "ffmpeg_ok env Chunking" "audio_path \<in> files w"
    and "ffmpeg_segment env audio_path 298 = Inr chunks"
  shows "transcribe_chunked env cb audio_path model language w =
     (let total_chunks = length chunks;
          future = (\<lambda>i. transcribe_part env i total_chunks (chunks ! i) model language);
          w1 = (note_event (Split audio_path)
                  (emit cb 84 (note_event (NewProcessor Chunking) w)))
                 \<lparr>files := files w \<union> set chunks\<rparr>;
          w2 = fold (\<lambda>chunk_path. note_event (ApiCall (part_request model chunk_path language)))
                 chunks w1;
          (failure, b) =
            collect future cb total_chunks (as_completed env total_chunks)
              \<lparr>results = replicate total_chunks None,
               total_usage = zero_usage,
               completed_count = 0,
               effects = w2\<rparr>;
          w3 = cleanup env chunks (effects b)
      in case failure of
           Some e \<Rightarrow> (Inl e, w3)
         | None \<Rightarrow>
             (case those (results b) of
                None \<Rightarrow> (Inl (TypeError (join_none_msg (results b))), w3)
              | Some texts \<Rightarrow>
                  (Inr \<lparr>t_text = join [CHR 0x0A, CHR 0x0A] texts,
                        t_language = language,
                        t_duration = None,
                        t_segments = Some [],
                        t_usage = Some (Totals (total_usage b))\<rparr>,
                   emit cb 99 w3)))"
  using assms
  by (simp add: transcribe_chunked_def new_processor_def split_audio_def Let_def)

lemma fold_note_files [simp]:
  "files (fold (\<lambda>p. note_event (f p)) ps w) = files w"
  by (induction ps arbitrary: w) auto



lemma chunked_text:
  assumes "ffmpeg_ok env Chunking" "audio_path \<in> files w"
    and "ffmpeg_segment env audio_path 298 = Inr chunks"
    and order: "set (as_completed env (length chunks)) = {0..<length chunks}"
    and ok: "\<forall>i<length chunks.
               api_create env (part_request model (chunks ! i) language) = Inr (resp i)"
  shows "fst (transcribe_chunked env cb audio_path model language w) = Inr r \<Longrightarrow>
           t_text r
             = join [CHR 0x0A, CHR 0x0A] (map (\<lambda>i. resp_text (resp i)) [0..<length chunks])
           \<and> t_language r = language \<and> t_segments r = Some []"
    and "\<forall>i<length chunks. \<not> isl (account_usage (resp_usage (resp i)) zero_usage) \<Longrightarrow>
           \<exists>r. fst (transcribe_chunked env cb audio_path model language w) = Inr r"
proof -
  define future where
    "future = (\<lambda>i. transcribe_part env i (length chunks) (chunks ! i) model language)"
  define d where
    "d = (\<lambda>i. \<lparr>p_index = i, p_text = resp_text (resp i), p_usage = resp_usage (resp i)\<rparr>)"
  define b0 where "b0 =
    \<lparr>results = replicate (length chunks) (None :: string option),
     total_usage = zero_usage,
     completed_count = 0,
     effects =
       fold (\<lambda>chunk_path. note_event (ApiCall (part_request model chunk_path language))) chunks
         ((note_event (Split audio_path) (emit cb 84 (note_event (NewProcessor Chunking) w)))
            \<lparr>files := files w \<union> set chunks\<rparr>)\<rparr>"
  define c where
    "c = collect future cb (length chunks) (as_completed env (length chunks)) b0"
  from ok order have fut: "\<forall>i\<in>set (as_completed env (length chunks)). future i = Inr (d i)"
    by (simp add: future_def d_def transcribe_part_def)
  have job: "fst (transcribe_chunked env cb audio_path model language w) =
      (case fst c of
         Some e \<Rightarrow> Inl e
       | None \<Rightarrow>
           (case those (results (snd c)) of
              None \<Rightarrow> Inl (TypeError (join_none_msg (results (snd c))))
            | Some texts \<Rightarrow>
                Inr \<lparr>t_text = join [CHR 0x0A, CHR 0x0A] texts, t_language = language,
                     t_duration = None, t_segments = Some [],
                     t_usage = Some (Totals (total_usage (snd c)))\<rparr>))"
    unfolding chunked_after_split [OF assms(1-3)]
    by (simp add: Let_def case_prod_beta c_def future_def b0_def split: option.splits)
  have len: "length (results b0) = length chunks" by (simp add: b0_def)
  have res: "results (snd c) = map (\<lambda>i. Some (p_text (d i))) [0..<length chunks]"
    if "fst c = None"
  proof -
    from collect_results [OF fut, of cb "length chunks" b0] that
    have "results (snd c)
        = fold (\<lambda>i rs. rs[i := Some (p_text (d i))]) (as_completed env (length chunks))
            (results b0)"
      by (simp add: c_def)
    then show ?thesis by (simp add: fold_update_all [OF order len])
  qed
  show "t_text r
          = join [CHR 0x0A, CHR 0x0A] (map (\<lambda>i. resp_text (resp i)) [0..<length chunks])
        \<and> t_language r = language \<and> t_segments r = Some []"
    if "fst (transcribe_chunked env cb audio_path model language w) = Inr r"
  proof (cases "fst c")
    case None
    with that res show ?thesis
      by (auto simp: job d_def comp_def)
  next
    case (Some e)
    with that show ?thesis by (simp add: job)
  qed
  show "\<exists>r. fst (transcribe_chunked env cb audio_path model language w) = Inr r"
    if "\<forall>i<length chunks. \<not> isl (account_usage (resp_usage (resp i)) zero_usage)"
  proof -
    from that fut order have "\<forall>i\<in>set (as_completed env (length chunks)).
        future i = Inr (d i) \<and> \<not> isl (account_usage (p_usage (d i)) zero_usage)"
      by (simp add: d_def)
    from collect_completes [OF this, of cb "length chunks" b0] have "fst c = None"
      by (simp add: c_def)
    with res show ?thesis by (simp add: job)
  qed
qed

lemma chunked_totals:
  assumes "ffmpeg_ok env Chunking" "audio_path \<in> files w"
    and "ffmpeg_segment env audio_path 298 = Inr chunks"
    and distinct: "distinct (as_completed env (length chunks))"
    and order: "set (as_completed env (length chunks)) = {0..<length chunks}"
    and ok: "\<forall>i<length chunks.
               api_create env (part_request model (chunks ! i) language) = Inr (resp i)"
    and counts: "\<forall>i<length chunks.
               (case resp_usage (resp i) of
                  None \<Rightarrow> P i = 0 \<and> C i = 0 \<and> T i = 0
                | Some u \<Rightarrow> p_tokens u = Some (P i) \<and> c_tokens u = Some (C i)
                             \<and> getattr0 (total_tokens u) = Some (T i))"
  shows "fst (transcribe_chunked env cb audio_path model language w) =
     Inr \<lparr>t_text = join [CHR 0x0A, CHR 0x0A] (map (\<lambda>i. resp_text (resp i)) [0..<length chunks]),
          t_language = language,
          t_duration = None,
          t_segments = Some [],
          t_usage = Some (Totals
            \<lparr>sum_prompt_tokens = (\<Sum>i<length chunks. P i),
             sum_completion_tokens = (\<Sum>i<length chunks. C i),
             sum_total_tokens = (\<Sum>i<length chunks. T i)\<rparr>)\<rparr>"
proof -
  define future where
    "future = (\<lambda>i. transcribe_part env i (length chunks) (chunks ! i) model language)"
  define d where
    "d = (\<lambda>i. \<lparr>p_index = i, p_text = resp_text (resp i), p_usage = resp_usage (resp i)\<rparr>)"
  define b0 where "b0 =
    \<lparr>results = replicate (length chunks) (None :: string option),
     total_usage = zero_usage,
     completed_count = 0,
     effects =
       fold (\<lambda>chunk_path. note_event (ApiCall (part_request model chunk_path language))) chunks
         ((note_event (Split audio_path) (emit cb 84 (note_event (NewProcessor Chunking) w)))
            \<lparr>files := files w \<union> set chunks\<rparr>)\<rparr>"
  define c where
    "c = collect future cb (length chunks) (as_completed env (length chunks)) b0"
  from ok order have fut: "\<forall>i\<in>set (as_completed env (length chunks)). future i = Inr (d i)"
    by (simp add: future_def d_def transcribe_part_def)
  from ok order counts have "\<forall>i\<in>set (as_completed env (length chunks)).
      future i = Inr (d i)
      \<and> (case p_usage (d i) of
            None \<Rightarrow> P i = 0 \<and> C i = 0 \<and> T i = 0
          | Some u \<Rightarrow> p_tokens u = Some (P i) \<and> c_tokens u = Some (C i)
                       \<and> getattr0 (total_tokens u) = Some (T i))"
    by (simp add: future_def d_def transcribe_part_def)
  from collect_totals [OF this, of cb "length chunks" b0]
  have none: "fst c = None"
    and tot: "total_usage (snd c) =
      \<lparr>sum_prompt_tokens = (\<Sum>i<length chunks. P i),
       sum_completion_tokens = (\<Sum>i<length chunks. C i),
       sum_total_tokens = (\<Sum>i<length chunks. T i)\<rparr>"
    by (simp_all add: c_def b0_def zero_usage_def sum_list_completion_order [OF distinct order])
  have len: "length (results b0) = length chunks" by (simp add: b0_def)
  from collect_results [OF fut, of cb "length chunks" b0] none
  have "results (snd c)
      = fold (\<lambda>i rs. rs[i := Some (p_text (d i))]) (as_completed env (length chunks))
          (results b0)"
    by (simp add: c_def)
  then have res: "results (snd c) = map (\<lambda>i. Some (p_text (d i))) [0..<length chunks]"
    by (simp add: fold_update_all [OF order len])
  show ?thesis
    unfolding chunked_after_split [OF assms(1-3)]
    by (simp add: Let_def case_prod_beta c_def [symmetric] future_def [symmetric]
          b0_def [symmetric] none res tot d_def comp_def)
qed


lemma studio_env_simps [simp]:
  "ffmpeg_ok studio_env s"
  "ffprobe studio_env p = Some 100"
  "getsize studio_env p = 1000"
  "ffmpeg_compress studio_env p bitrate out = None"
  "ffmpeg_segment studio_env p seconds = Inr [''talk_part000.mp3'', ''talk_part001.mp3'']"
  "api_create studio_env req = Inr (echo req)"
  "\<not> remove_fails studio_env p"
  "as_completed studio_env n = rev [0..<n]"
  by (simp_all add: studio_env_def)

lemma studio_simps [simp]: "files studio = {''talk.wav''}" "trace studio = []"
  by (simp_all add: studio_def)

lemma flaky_env_simps [simp]:
  "ffmpeg_ok flaky_env s"
  "ffmpeg_segment flaky_env p seconds = Inr [''talk_part000.mp3'', ''talk_part001.mp3'']"
  "api_create flaky_env req
     = (if req_file req = ''talk_part001.mp3'' then Inl ''timeout'' else Inr (echo req))"
  "\<not> remove_fails flaky_env p"
  "as_completed flaky_env n = [0..<n]"
  "ffmpeg_ok sticky_env s"
  "ffmpeg_segment sticky_env p seconds = Inr [''talk_part000.mp3'', ''talk_part001.mp3'']"
  "remove_fails sticky_env p = (p = ''talk_part000.mp3'')"
  by (simp_all add: flaky_env_def sticky_env_def)



text \<open>
  Claim C2. Let every segment's call succeed. Whenever the batch returns a transcript,
  its text is the segment texts in index order, joined by two line breaks, whatever the
  order in which the calls complete; its language is the one the caller asked for, and its
  list of timed segments is empty. The batch does return a transcript when no usage
  record makes the accounting raise.
\<close>

theorem chunked_text_in_index_order:
  assumes "ffmpeg_ok env Chunking" and "audio_path \<in> files w"
    and "ffmpeg_segment env audio_path 298 = Inr chunks"
    and "distinct (as_completed env (length chunks))"
    and "set (as_completed env (length chunks)) = {0..<length chunks}"
    and "\<forall>i<length chunks.
           api_create env (part_request model (chunks ! i) language) = Inr (resp i)"
  shows "(\<forall>r. fst (transcribe_chunked env cb audio_path model language w) = Inr r \<longrightarrow>
            t_text r
              = join [CHR 0x0A, CHR 0x0A] (map (\<lambda>i. resp_text (resp i)) [0..<length chunks])
            \<and> t_language r = language
            \<and> t_segments r = Some [])
       \<and> ((\<forall>i<length chunks. \<not> isl (account_usage (resp_usage (resp i)) zero_usage)) \<longrightarrow>
            (\<exists>r. fst (transcribe_chunked env cb audio_path model language w) = Inr r))"
  using chunked_text [OF assms(1-3,5,6)] by blast

theorem chunked_text_in_index_order_witness:
  "\<exists>r. fst (transcribe_chunked studio_env True ''talk.wav'' ''whisper-1'' (Some ''zh'') studio)
          = Inr r
       \<and> t_text r = ''talk_part000.mp3'' @ [CHR 0x0A, CHR 0x0A] @ ''talk_part001.mp3''
       \<and> t_language r = Some ''zh''
       \<and> t_segments r = Some []"
proof -
  let ?chunks = "[''talk_part000.mp3'', ''talk_part001.mp3'']"
  have h2: "''talk.wav'' \<in> files studio" by simp
  have h3: "ffmpeg_segment studio_env ''talk.wav'' 298 = Inr ?chunks" by simp
  have h4: "distinct (as_completed studio_env (length ?chunks))" by simp
  have h5: "set (as_completed studio_env (length ?chunks)) = {0..<length ?chunks}" by auto
  have h6: "\<forall>i<length ?chunks.
      api_create studio_env (part_request ''whisper-1'' (?chunks ! i) (Some ''zh''))
        = Inr (echo (part_request ''whisper-1'' (?chunks ! i) (Some ''zh'')))"
    by simp
  have adds: "\<forall>i<length ?chunks.
      \<not> isl (account_usage
              (resp_usage (echo (part_request ''whisper-1'' (?chunks ! i) (Some ''zh''))))
              zero_usage)"
    by (simp add: echo_def account_usage_def)
  from chunked_text_in_index_order
    [of studio_env, OF _ h2 h3 h4 h5 h6, of True] adds
  show ?thesis
    by (auto simp: echo_def part_request_def upt_rec [of 0] upt_rec [of 1])
qed

text \<open>
  Claim C5, as amended. In a batch in which every call succeeds and every count to be
  added is an integer, the prompt and completion totals are the sums over the segments of
  the counts of lines 346 and 347 (\<open>prompt_tokens\<close>, or \<open>input_tokens\<close> when that is
  absent, \<open>None\<close> or zero, and likewise for the completion), and the total is the sum of
  the \<open>total_tokens\<close> of the usage objects, an object without that attribute counting
  for 0. A segment without a usage object adds nothing.
\<close>

theorem usage_totals_are_sums:
  assumes "ffmpeg_ok env Chunking" and "audio_path \<in> files w"
    and "ffmpeg_segment env audio_path 298 = Inr chunks"
    and "distinct (as_completed env (length chunks))"
    and "set (as_completed env (length chunks)) = {0..<length chunks}"
    and "\<forall>i<length chunks.
           api_create env (part_request model (chunks ! i) language) = Inr (resp i)"
    and "\<forall>i<length chunks.
           (case resp_usage (resp i) of
              None \<Rightarrow> P i = 0 \<and> C i = 0 \<and> T i = 0
            | Some u \<Rightarrow> p_tokens u = Some (P i) \<and> c_tokens u = Some (C i)
                         \<and> getattr0 (total_tokens u) = Some (T i))"
  shows "\<exists>r. fst (transcribe_chunked env cb audio_path model language w) = Inr r
           \<and> t_usage r = Some (Totals
               \<lparr>sum_prompt_tokens = (\<Sum>i<length chunks. P i),
                sum_completion_tokens = (\<Sum>i<length chunks. C i),
                sum_total_tokens = (\<Sum>i<length chunks. T i)\<rparr>)"
  using chunked_totals [OF assms] by simp

text \<open>
  In \<open>token_style_env\<close> the first usage object has only \<open>input_tokens\<close> 10,
  \<open>output_tokens\<close> 5 and \<open>total_tokens\<close> 15; the second has \<open>prompt_tokens\<close> 0 beside
  \<open>input_tokens\<close> 7, \<open>completion_tokens\<close> \<open>None\<close> beside \<open>output_tokens\<close> 3, and no total.
\<close>

theorem usage_totals_are_sums_witness:
  "\<exists>r. fst (transcribe_chunked token_style_env True ''talk.wav'' ''whisper-1'' None studio)
          = Inr r
       \<and> t_usage r = Some (Totals
           \<lparr>sum_prompt_tokens = 17, sum_completion_tokens = 8, sum_total_tokens = 15\<rparr>)"
proof -
  let ?chunks = "[''talk_part000.mp3'', ''talk_part001.mp3'']"
  have h1: "ffmpeg_ok token_style_env Chunking" by (simp add: token_style_env_def)
  have h2: "''talk.wav'' \<in> files studio" by simp
  have h3: "ffmpeg_segment token_style_env ''talk.wav'' 298 = Inr ?chunks"
    by (simp add: token_style_env_def)
  have h4: "distinct (as_completed token_style_env (length ?chunks))"
    by (simp add: token_style_env_def)
  have h5: "set (as_completed token_style_env (length ?chunks)) = {0..<length ?chunks}"
    by (auto simp: token_style_env_def)
  have h6: "\<forall>i<length ?chunks.
      api_create token_style_env (part_request ''whisper-1'' (?chunks ! i) None)
        = Inr (token_style (part_request ''whisper-1'' (?chunks ! i) None))"
    by (simp add: token_style_env_def)
  have h7: "\<forall>i<length ?chunks.
      (case resp_usage (token_style (part_request ''whisper-1'' (?chunks ! i) None)) of
         None \<Rightarrow> [10, 7] ! i = 0 \<and> [5, 3] ! i = 0 \<and> [15, 0] ! i = 0
       | Some u \<Rightarrow> p_tokens u = Some ([10, 7] ! i) \<and> c_tokens u = Some ([5, 3] ! i)
                    \<and> getattr0 (total_tokens u) = Some ([15, 0] ! i))"
    by (auto simp: less_Suc_eq token_style_def echo_def part_request_def p_tokens_def
          c_tokens_def py_or_def getattr0_def)
  from usage_totals_are_sums [OF h1 h2 h3 h4 h5 h6 h7, of True]
  show ?thesis
    by (simp add: lessThan_Suc numeral_2_eq_2)
qed

text \<open>
  The claim as stated fails. Two segments that report 10 and 5, and 7 and 3 tokens, in
  usage objects without a \<open>total_tokens\<close> attribute, accumulate to 17, 8 and a total of
  0, not 25. When the objects hold \<open>None\<close> as their \<open>total_tokens\<close>, the addition of
  line 351 raises and the batch ends with the exception of line 360, for the segment that
  completed first.
\<close>

theorem usage_total_not_derived:
  "fst (transcribe_chunked (metered_env Absent) False ''talk.wav'' ''gpt-4o-transcribe'' None
          studio) =
     Inr \<lparr>t_text = ''talk_part000.mp3'' @ [CHR 0x0A, CHR 0x0A] @ ''talk_part001.mp3'',
          t_language = None, t_duration = None, t_segments = Some [],
          t_usage = Some (Totals
            \<lparr>sum_prompt_tokens = 17, sum_completion_tokens = 8, sum_total_tokens = 0\<rparr>)\<rparr>
   \<and> fst (transcribe_chunked (metered_env (Present None)) False ''talk.wav''
            ''gpt-4o-transcribe'' None studio) =
     Inl (Exception (chunk_failed_msg 1 type_error_msg))"
  by (simp add: transcribe_chunked_def new_processor_def split_audio_def emit_def
        note_event_def Let_def transcribe_part_def part_request_def upt_rec [of 0]
        upt_rec [of 1] record_part_def echo_def metered_def metered_env_def
        account_usage_def zero_usage_def iadd_def p_tokens_def c_tokens_def py_or_def
        getattr0_def)

section \<open>Properties of the orchestrator\<close>

lemma transcribe_remote:
  assumes "audio_path \<in> files w" and "is_api_model t" and "api_key t = Some k" and "k \<noteq> []"
  shows "transcribe env cb t audio_path language w =
     (if fst (duration_check env audio_path (emit cb 82 w))
      then transcribe_chunked env cb audio_path (model_name t) language
             (emit cb 83 (snd (duration_check env audio_path (emit cb 82 w))))
      else single_shot env cb t audio_path language
             (snd (duration_check env audio_path (emit cb 82 w))))"
  using assms by (simp add: transcribe_def load_model_def case_prod_beta)

lemma duration_check_eq:
  "duration_check env audio_path w =
     (ffmpeg_ok env DurationCheck \<and> 298 < get_audio_duration env audio_path,
      note_event (NewProcessor DurationCheck) w)"
  by (simp add: duration_check_def new_processor_def)

text \<open>
  Claim C3. For a remote model whose duration check runs, the choice is strict at 298
  seconds: a measured duration of exactly 298 leaves \<open>should_chunk\<close> false and the job is
  the single-shot path; any duration above 298 sets it and the job is the chunked path.
\<close>

theorem chunk_threshold_is_strict:
  assumes "audio_path \<in> files w" and "is_api_model t" and "api_key t = Some k" and "k \<noteq> []"
    and "ffmpeg_ok env DurationCheck" and "ffprobe env audio_path = Some d"
  shows "(d = 298 \<longrightarrow>
            \<not> fst (duration_check env audio_path (emit cb 82 w))
            \<and> transcribe env cb t audio_path language w
                = single_shot env cb t audio_path language
                    (note_event (NewProcessor DurationCheck) (emit cb 82 w)))
       \<and> (298 < d \<longrightarrow>
            fst (duration_check env audio_path (emit cb 82 w))
            \<and> transcribe env cb t audio_path language w
                = transcribe_chunked env cb audio_path (model_name t) language
                    (emit cb 83 (note_event (NewProcessor DurationCheck) (emit cb 82 w))))"
  using assms(5,6)
  by (simp add: transcribe_remote [OF assms(1-4)] duration_check_eq get_audio_duration_def)

lemma example_transcribers [simp]:
  "is_api_model gpt4o" "api_key gpt4o = Some ''sk-test''" "model_name gpt4o = ''gpt-4o-transcribe''"
  "is_api_model whisper1" "api_key whisper1 = Some ''sk-test''" "model_name whisper1 = ''whisper-1''"
  by (simp_all add: gpt4o_def whisper1_def new_transcriber_def is_api_model_def)

lemma sublist_Cons_Cons [simp]:
  "sublist (x # xs) (y # ys) = (prefix (x # xs) (y # ys) \<or> sublist (x # xs) ys)"
  by (simp add: sublist_Cons_right)

theorem chunk_threshold_is_strict_witness:
  "trace (snd (transcribe (timed_env 298) True gpt4o ''talk.wav'' None studio))
     = [Progress 82, NewProcessor DurationCheck, Progress 85,
        ApiCall (upload_request gpt4o ''talk.wav'' None), Progress 99]
   \<and> trace (snd (transcribe (timed_env (2981 / 10)) True gpt4o ''talk.wav'' None studio))
     = [Progress 82, NewProcessor DurationCheck, Progress 83, NewProcessor Chunking,
        Progress 84, Split ''talk.wav'',
        ApiCall (part_request ''gpt-4o-transcribe'' ''talk_part000.mp3'' None),
        ApiCall (part_request ''gpt-4o-transcribe'' ''talk_part001.mp3'' None),
        Progress 92, Progress 99, Remove ''talk_part000.mp3'', Remove ''talk_part001.mp3'',
        Progress 99]"
proof -
  have h1: "''talk.wav'' \<in> files studio" by (simp add: studio_def)
  have h4: "''sk-test'' \<noteq> []" by simp
  have h5: "ffmpeg_ok (timed_env d) DurationCheck" for d by (simp add: timed_env_def)
  have h6: "ffprobe (timed_env d) ''talk.wav'' = Some d" for d by (simp add: timed_env_def)
  note at = chunk_threshold_is_strict
    [OF h1 example_transcribers(1) example_transcribers(2) h4 h5 h6, of _ True None]
  have single: "trace (snd (transcribe (timed_env 298) True gpt4o ''talk.wav'' None studio))
     = [Progress 82, NewProcessor DurationCheck, Progress 85,
        ApiCall (upload_request gpt4o ''talk.wav'' None), Progress 99]"
    using at [of 298]
    by (simp add: single_shot_def prepare_upload_def timed_env_def studio_def emit_def
          note_event_def api_call_def)
  have chunked:
    "trace (snd (transcribe (timed_env (2981 / 10)) True gpt4o ''talk.wav'' None studio))
     = [Progress 82, NewProcessor DurationCheck, Progress 83, NewProcessor Chunking,
        Progress 84, Split ''talk.wav'',
        ApiCall (part_request ''gpt-4o-transcribe'' ''talk_part000.mp3'' None),
        ApiCall (part_request ''gpt-4o-transcribe'' ''talk_part001.mp3'' None),
        Progress 92, Progress 99, Remove ''talk_part000.mp3'', Remove ''talk_part001.mp3'',
        Progress 99]"
    using at [of "2981 / 10"]
    by (simp add: transcribe_chunked_def new_processor_def split_audio_def timed_env_def
          studio_def emit_def note_event_def Let_def transcribe_part_def
          upt_rec [of 0] upt_rec [of 1] record_part_def echo_def account_usage_def zero_usage_def)
  from single chunked show ?thesis by simp
qed


subsection \<open>Traces\<close>

lemma trace_note_event [simp]: "trace (note_event e w) = trace w @ [e]"
  by (simp add: note_event_def)

lemma trace_emit: "trace (emit cb pct w) = trace w @ (if cb then [Progress pct] else [])"
  by (simp add: emit_def)

lemma api_calls_append [simp]: "api_calls (xs @ ys) = api_calls xs @ api_calls ys"
  by (induction xs rule: api_calls.induct) auto

lemma compressions_append [simp]: "compressions (xs @ ys) = compressions xs @ compressions ys"
  by (induction xs rule: compressions.induct) auto

lemma api_calls_emit [simp]: "api_calls (trace (emit cb pct w)) = api_calls (trace w)"
  by (simp add: trace_emit)

lemma compressions_emit [simp]: "compressions (trace (emit cb pct w)) = compressions (trace w)"
  by (simp add: trace_emit)

lemma set_trace_emit:
  "set (trace (emit cb pct w)) = set (trace w) \<union> (if cb then {Progress pct} else {})"
  by (simp add: trace_emit)

subsection \<open>The upload path\<close>

lemma rfind_found:
  assumes "0 \<le> rfind c p"
  shows "nat (rfind c p) < length p \<and> p ! nat (rfind c p) = c"
proof (cases "filter (\<lambda>i. p ! i = c) (rev [0..<length p])")
  case Nil
  with assms show ?thesis by (simp add: rfind_def)
next
  case (Cons i rest)
  then have "i \<in> set (filter (\<lambda>i. p ! i = c) (rev [0..<length p]))" by simp
  then have "i < length p \<and> p ! i = c" by simp
  with Cons show ?thesis by (simp add: rfind_def)
qed

lemma rfind_lower: "- 1 \<le> rfind c p"
  by (simp add: rfind_def split: list.splits)

lemma splitext_parts:
  "fst (splitext p) @ snd (splitext p) = p
   \<and> (snd (splitext p) = [] \<or> hd (snd (splitext p)) = CHR ''.'')"
proof (cases "snd (splitext p) = []")
  case True
  then show ?thesis by (auto simp: splitext_def Let_def split: if_splits)
next
  case False
  then have dot: "rfind (CHR ''/'') p < rfind (CHR ''.'') p"
    and ext: "splitext p = (take (nat (rfind (CHR ''.'') p)) p, drop (nat (rfind (CHR ''.'') p)) p)"
    by (auto simp: splitext_def Let_def split: if_splits)
  from dot rfind_lower [of "CHR ''/''" p] have "0 \<le> rfind (CHR ''.'') p" by simp
  from rfind_found [OF this] show ?thesis
    by (simp add: ext hd_drop_conv_nth)
qed

lemma compressed_path_differs: "compressed_path p \<noteq> p"
proof
  assume "compressed_path p = p"
  then have "fst (splitext p) @ ''_compressed.mp3'' = fst (splitext p) @ snd (splitext p)"
    using splitext_parts [of p] by (simp add: compressed_path_def)
  then have "snd (splitext p) = ''_compressed.mp3''" by simp
  with splitext_parts [of p] show False by simp
qed


lemma prepare_upload_small:
  "\<not> 24 < real (getsize env audio_path) / (1024 * 1024) \<Longrightarrow>
   prepare_upload env cb audio_path w = (Inr audio_path, w)"
  by (simp add: prepare_upload_def)

lemma prepare_upload_big:
  assumes "24 < real (getsize env audio_path) / (1024 * 1024)" and "audio_path \<in> files w"
    and "ffmpeg_ok env Compression"
  shows "fst (prepare_upload env cb audio_path w)
           = Inr (if ffmpeg_compress env audio_path (bitrate_kbps env audio_path)
                       (compressed_path audio_path) = None
                  then compressed_path audio_path else audio_path)"
    and "trace (snd (prepare_upload env cb audio_path w))
           = trace w @ (if cb then [Progress 83] else [])
               @ [NewProcessor Compression, Compress audio_path]
               @ (if cb then [Progress 62] else [])"
  using assms
  by (simp_all add: prepare_upload_def new_processor_def compress_for_api_def Let_def
        trace_emit split: option.splits)

lemma prepare_upload_trace:
  "\<exists>es. trace (snd (prepare_upload env cb audio_path w)) = trace w @ es
        \<and> api_calls es = [] \<and> NewProcessor Chunking \<notin> set es"
  by (simp add: prepare_upload_def new_processor_def compress_for_api_def Let_def
        trace_emit split: option.splits)

lemma prepare_upload_Inl:
  "fst (prepare_upload env cb audio_path w) = Inl e \<Longrightarrow> e = RuntimeError ffmpeg_missing_msg"
  by (auto simp: prepare_upload_def new_processor_def compress_for_api_def Let_def
        split: option.splits if_splits)

lemma api_calls_prepare_upload [simp]:
  "api_calls (trace (snd (prepare_upload env cb audio_path w))) = api_calls (trace w)"
  using prepare_upload_trace [of env cb audio_path w] by auto

subsection \<open>The handler of a failed upload\<close>

lemma recover_too_large:
  "too_large m \<Longrightarrow>
   recover env cb t p language m w = transcribe_chunked env cb p (model_name t) language w"
  by (simp add: recover_def)

lemma recover_fallback:
  "\<not> too_large m \<Longrightarrow> model_name t \<noteq> ''whisper-1'' \<Longrightarrow>
   recover env cb t p language m w =
     (case api_create env (fallback_request p language) of
        Inl m2 \<Rightarrow> Inl (Exception (fallback_failed_msg @ m2))
      | Inr r \<Rightarrow>
          Inr \<lparr>t_text = resp_text r, t_language = Some (getattr_language r),
               t_duration = Some (getattr_duration r), t_segments = None, t_usage = None\<rparr>,
      note_event (ApiCall (fallback_request p language)) w)"
  by (simp add: recover_def api_call_def split: sum.splits)

lemma recover_final:
  "\<not> too_large m \<Longrightarrow> model_name t = ''whisper-1'' \<Longrightarrow>
   recover env cb t p language m w = (Inl (Exception (api_failed_msg @ m)), w)"
  by (simp add: recover_def)

lemma single_shot_upload_failed:
  assumes "prepare_upload env cb audio_path (emit cb 85 w) = (Inr p, w1)"
    and "api_create env (upload_request t p language) = Inl m"
  shows "single_shot env cb t audio_path language w
           = recover env cb t p language m (note_event (ApiCall (upload_request t p language)) w1)"
  using assms by (simp add: single_shot_def api_call_def)

lemma api_calls_job_start:
  assumes "duration_check env audio_path (emit cb 82 w) = (c, w0)"
    and "prepare_upload env cb audio_path (emit cb 85 w0) = (Inr p, w1)"
  shows "api_calls (trace w1) = api_calls (trace w)"
proof -
  from assms(1) have "w0 = note_event (NewProcessor DurationCheck) (emit cb 82 w)"
    by (simp add: duration_check_eq)
  moreover from assms(2) have "w1 = snd (prepare_upload env cb audio_path (emit cb 85 w0))"
    by simp
  ultimately show ?thesis by simp
qed

text \<open>
  Claim C4, as amended. In a single-shot job of a remote model other than \<open>whisper-1\<close>
  whose upload fails with a message that is not classified as too large, the remote calls
  of the job are exactly the upload and one retry of the same file against \<open>whisper-1\<close>.
  If the retry fails too, the job ends with one exception whose message is the fixed
  prefix of line 209 followed by the reason of the retry's failure alone.
\<close>

theorem fallback_retried_once:
  assumes "audio_path \<in> files w" and "is_api_model t" and "api_key t = Some k" and "k \<noteq> []"
    and "duration_check env audio_path (emit cb 82 w) = (False, w0)"
    and "prepare_upload env cb audio_path (emit cb 85 w0) = (Inr p, w1)"
    and "api_create env (upload_request t p language) = Inl m"
    and "\<not> too_large m" and "model_name t \<noteq> ''whisper-1''"
  shows "api_calls (trace (snd (transcribe env cb t audio_path language w)))
           = api_calls (trace w) @ [upload_request t p language, fallback_request p language]
       \<and> (\<forall>m2. api_create env (fallback_request p language) = Inl m2 \<longrightarrow>
             fst (transcribe env cb t audio_path language w)
               = Inl (Exception (fallback_failed_msg @ m2)))"
  using assms(5)
  by (simp add: transcribe_remote [OF assms(1-4)] single_shot_upload_failed [OF assms(6,7)]
        recover_fallback [OF assms(8,9)] api_calls_job_start [OF assms(5,6)])

text \<open>
  Claim C6. In a single-shot job, so one whose duration check did not ask for chunking,
  an upload that fails with a message classified as too large does not end the job: the
  result of the job is the result of \<open>_transcribe_chunked\<close> on the file that was uploaded,
  started after the failed call.
\<close>

theorem too_large_escalates_to_chunked:
  assumes "audio_path \<in> files w" and "is_api_model t" and "api_key t = Some k" and "k \<noteq> []"
    and "duration_check env audio_path (emit cb 82 w) = (False, w0)"
    and "prepare_upload env cb audio_path (emit cb 85 w0) = (Inr p, w1)"
    and "api_create env (upload_request t p language) = Inl m"
    and "too_large m"
  shows "transcribe env cb t audio_path language w
           = transcribe_chunked env cb p (model_name t) language
               (note_event (ApiCall (upload_request t p language)) w1)"
  using assms(5)
  by (simp add: transcribe_remote [OF assms(1-4)] single_shot_upload_failed [OF assms(6,7)]
        recover_too_large [OF assms(8)])

text \<open>
  Claim C7, as amended. In a single-shot job of the model \<open>whisper-1\<close> whose upload fails
  with a message that is not classified as too large, the upload is the only remote call
  of the job, and the job ends with the exception of line 211, which carries that message.
\<close>

theorem baseline_model_not_retried:
  assumes "audio_path \<in> files w" and "is_api_model t" and "api_key t = Some k" and "k \<noteq> []"
    and "duration_check env audio_path (emit cb 82 w) = (False, w0)"
    and "prepare_upload env cb audio_path (emit cb 85 w0) = (Inr p, w1)"
    and "api_create env (upload_request t p language) = Inl m"
    and "\<not> too_large m" and "model_name t = ''whisper-1''"
  shows "api_calls (trace (snd (transcribe env cb t audio_path language w)))
           = api_calls (trace w) @ [upload_request t p language]
       \<and> fst (transcribe env cb t audio_path language w) = Inl (Exception (api_failed_msg @ m))"
  using assms(5)
  by (simp add: transcribe_remote [OF assms(1-4)] single_shot_upload_failed [OF assms(6,7)]
        recover_final [OF assms(8,9)] api_calls_job_start [OF assms(5,6)])


lemma example_envs [simp]:
  "ffmpeg_ok offline_env s" "ffprobe offline_env p = Some 100" "getsize offline_env p = 1000"
  "ffmpeg_ok strict_env s" "ffprobe strict_env p = Some 100" "getsize strict_env p = 1000"
  "ffmpeg_segment strict_env p seconds = Inr [''talk_part000.mp3'', ''talk_part001.mp3'']"
  "as_completed strict_env n = rev [0..<n]"
  by (simp_all add: offline_env_def strict_env_def)

lemma short_job_start:
  assumes "ffprobe env ''talk.wav'' = Some 100" and "getsize env ''talk.wav'' = 1000"
  shows "duration_check env ''talk.wav'' (emit True 82 studio)
           = (False, note_event (NewProcessor DurationCheck) (emit True 82 studio))"
    and "prepare_upload env True ''talk.wav''
           (emit True 85 (note_event (NewProcessor DurationCheck) (emit True 82 studio)))
           = (Inr ''talk.wav'',
              emit True 85 (note_event (NewProcessor DurationCheck) (emit True 82 studio)))"
  using assms by (simp_all add: duration_check_eq get_audio_duration_def prepare_upload_small)

theorem fallback_retried_once_witness:
  "api_calls (trace (snd (transcribe offline_env True gpt4o ''talk.wav'' None studio)))
     = [upload_request gpt4o ''talk.wav'' None, fallback_request ''talk.wav'' None]
   \<and> fst (transcribe offline_env True gpt4o ''talk.wav'' None studio)
       = Inl (Exception (fallback_failed_msg @ ''quota exceeded''))"
proof -
  have h1: "''talk.wav'' \<in> files studio" by simp
  have h4: "''sk-test'' \<noteq> []" by simp
  have h7: "api_create offline_env (upload_request gpt4o ''talk.wav'' None)
              = Inl ''connection reset''"
    by (simp add: offline_env_def upload_request_def)
  have h8: "\<not> too_large ''connection reset''" by (simp add: too_large_def)
  have h9: "model_name gpt4o \<noteq> ''whisper-1''" by simp
  have m2: "api_create offline_env (fallback_request ''talk.wav'' None) = Inl ''quota exceeded''"
    by (simp add: offline_env_def fallback_request_def)
  from fallback_retried_once
    [OF h1 example_transcribers(1) example_transcribers(2) h4
        short_job_start [of offline_env] h7 h8 h9] m2
  show ?thesis by simp
qed

text \<open>
  The claim as stated fails: when the upload is refused with \<open>connection reset\<close> and the
  retry with \<open>quota exceeded\<close>, the message of the final exception does not contain the
  first reason.
\<close>

theorem fallback_error_omits_original_reason:
  "fst (transcribe offline_env True gpt4o ''talk.wav'' None studio)
     = Inl (Exception (fallback_failed_msg @ ''quota exceeded''))
   \<and> \<not> sublist ''connection reset'' (fallback_failed_msg @ ''quota exceeded'')"
proof -
  have "fst (transcribe offline_env True gpt4o ''talk.wav'' None studio)
          = Inl (Exception (fallback_failed_msg @ ''quota exceeded''))"
    by (simp add: transcribe_remote [where k = "''sk-test''"] duration_check_eq
          get_audio_duration_def single_shot_def prepare_upload_small api_call_def
          upload_request_def fallback_request_def recover_def too_large_def offline_env_def)
  moreover have "\<not> sublist ''connection reset'' (fallback_failed_msg @ ''quota exceeded'')"
    by (simp add: fallback_failed_msg_def transcribe_failed_def)
  ultimately show ?thesis by simp
qed

theorem too_large_escalates_to_chunked_witness:
  "transcribe strict_env True gpt4o ''talk.wav'' None studio
     = transcribe_chunked strict_env True ''talk.wav'' ''gpt-4o-transcribe'' None
         (note_event (ApiCall (upload_request gpt4o ''talk.wav'' None))
            (emit True 85 (note_event (NewProcessor DurationCheck) (emit True 82 studio))))"
proof -
  have h1: "''talk.wav'' \<in> files studio" by simp
  have h4: "''sk-test'' \<noteq> []" by simp
  have h7: "api_create strict_env (upload_request gpt4o ''talk.wav'' None)
              = Inl ''input_too_large''"
    by (simp add: strict_env_def upload_request_def)
  have h8: "too_large ''input_too_large''" by (simp add: too_large_def)
  from too_large_escalates_to_chunked
    [OF h1 example_transcribers(1) example_transcribers(2) h4
        short_job_start [of strict_env] h7 h8]
  show ?thesis by simp
qed

theorem baseline_model_not_retried_witness:
  "api_calls (trace (snd (transcribe offline_env True whisper1 ''talk.wav'' None studio)))
     = [upload_request whisper1 ''talk.wav'' None]
   \<and> fst (transcribe offline_env True whisper1 ''talk.wav'' None studio)
       = Inl (Exception (api_failed_msg @ ''quota exceeded''))"
proof -
  have h1: "''talk.wav'' \<in> files studio" by simp
  have h4: "''sk-test'' \<noteq> []" by simp
  have h7: "api_create offline_env (upload_request whisper1 ''talk.wav'' None)
              = Inl ''quota exceeded''"
    by (simp add: offline_env_def upload_request_def)
  have h8: "\<not> too_large ''quota exceeded''" by (simp add: too_large_def)
  from baseline_model_not_retried
    [OF h1 example_transcribers(4) example_transcribers(5) h4
        short_job_start [of offline_env] h7 h8 example_transcribers(6)]
  show ?thesis by simp
qed

text \<open>
  The claim as stated fails: when the service refuses the whole file of a \<open>whisper-1\<close> job
  as too large, the job goes on to the chunked mode, makes three remote calls in all and
  returns a transcript.
\<close>

theorem baseline_model_chunks_when_too_large:
  "fst (transcribe strict_env True whisper1 ''talk.wav'' None studio)
     = Inr \<lparr>t_text = ''talk_part000.mp3'' @ [CHR 0x0A, CHR 0x0A] @ ''talk_part001.mp3'',
            t_language = None, t_duration = None, t_segments = Some [],
            t_usage = Some (Totals \<lparr>sum_prompt_tokens = 0, sum_completion_tokens = 0,
                                    sum_total_tokens = 0\<rparr>)\<rparr>
   \<and> api_calls (trace (snd (transcribe strict_env True whisper1 ''talk.wav'' None studio)))
     = [upload_request whisper1 ''talk.wav'' None,
        part_request ''whisper-1'' ''talk_part000.mp3'' None,
        part_request ''whisper-1'' ''talk_part001.mp3'' None]"
  by (simp add: transcribe_remote [where k = "''sk-test''"] duration_check_eq
        get_audio_duration_def single_shot_def prepare_upload_small api_call_def
        upload_request_def part_request_def recover_def too_large_def strict_env_def
        transcribe_chunked_def new_processor_def split_audio_def emit_def Let_def
        transcribe_part_def upt_rec [of 0] upt_rec [of 1] record_part_def echo_def
        account_usage_def zero_usage_def response_fmt_def)

subsection \<open>Compressions and processor constructions of a job\<close>

lemma processors_append [simp]: "processors (xs @ ys) = processors xs @ processors ys"
  by (induction xs rule: processors.induct) auto

lemma processors_emit [simp]: "processors (trace (emit cb pct w)) = processors (trace w)"
  by (simp add: trace_emit)

lemma views_cleanup [simp]:
  "compressions (trace (cleanup env chunks w)) = compressions (trace w)"
  "processors (trace (cleanup env chunks w)) = processors (trace w)"
  by (induction chunks arbitrary: w) auto

lemma views_record_part:
  assumes "record_part cb n i d b = Inr b'"
  shows "compressions (trace (effects b')) = compressions (trace (effects b))"
    and "processors (trace (effects b')) = processors (trace (effects b))"
  using assms by (auto simp: record_part_def Let_def split: sum.splits)

lemma views_collect [simp]:
  "compressions (trace (effects (snd (collect future cb n order b))))
     = compressions (trace (effects b))"
  "processors (trace (effects (snd (collect future cb n order b))))
     = processors (trace (effects b))"
  by (induction order arbitrary: b) (auto split: sum.splits simp: views_record_part)

lemma views_submit [simp]:
  "compressions (trace (fold (\<lambda>p. note_event (ApiCall (f p))) ps w)) = compressions (trace w)"
  "processors (trace (fold (\<lambda>p. note_event (ApiCall (f p))) ps w)) = processors (trace w)"
  by (induction ps arbitrary: w) auto

lemma views_split_audio [simp]:
  "compressions (trace (snd (split_audio env p seconds w))) = compressions (trace w)"
  "processors (trace (snd (split_audio env p seconds w))) = processors (trace w)"
  by (simp_all add: split_audio_def Let_def split: sum.splits)

lemma views_chunked [simp]:
  "compressions (trace (snd (transcribe_chunked env cb p model language w)))
     = compressions (trace w)"
  "processors (trace (snd (transcribe_chunked env cb p model language w)))
     = processors (trace w) @ [Chunking]"
proof -
  obtain r w1 where s: "split_audio env p 298 (emit cb 84 (note_event (NewProcessor Chunking) w))
      = (r, w1)"
    by (cases "split_audio env p 298 (emit cb 84 (note_event (NewProcessor Chunking) w))")
  from views_split_audio [of env p 298 "emit cb 84 (note_event (NewProcessor Chunking) w)"]
  have w1: "compressions (trace w1) = compressions (trace w)"
    "processors (trace w1) = processors (trace w) @ [Chunking]"
    by (simp_all add: s)
  show "compressions (trace (snd (transcribe_chunked env cb p model language w)))
     = compressions (trace w)"
    by (simp add: transcribe_chunked_def new_processor_def s w1 Let_def case_prod_beta
          split: sum.splits option.splits)
  show "processors (trace (snd (transcribe_chunked env cb p model language w)))
     = processors (trace w) @ [Chunking]"
    by (simp add: transcribe_chunked_def new_processor_def s w1 Let_def case_prod_beta
          split: sum.splits option.splits)
qed

lemma views_recover:
  "compressions (trace (snd (recover env cb t p language m w))) = compressions (trace w)"
  "processors (trace (snd (recover env cb t p language m w)))
     = processors (trace w) @ (if too_large m then [Chunking] else [])"
  by (simp_all add: recover_def api_call_def split: sum.splits)


subsection \<open>Traces only grow\<close>

lemma grows_emit [simp]: "prefix (trace w) (trace (emit cb pct w))"
  by (simp add: trace_emit)

lemma grows_cleanup: "prefix (trace w) (trace (cleanup env chunks w))"
proof (induction chunks arbitrary: w)
  case Nil
  show ?case by simp
next
  case (Cons c chunks)
  show ?case
  proof (cases "c \<in> files w")
    case True
    let ?v = "if remove_fails env c then note_event (Remove c) w
              else note_event (Remove c) (w\<lparr>files := files w - {c}\<rparr>)"
    have "prefix (trace w) (trace ?v)" by simp
    also have "prefix (trace ?v) (trace (cleanup env chunks ?v))" by (rule Cons.IH)
    finally show ?thesis using True by simp
  next
    case False
    with Cons.IH [of w] show ?thesis by simp
  qed
qed

lemma grows_collect:
  "prefix (trace (effects b)) (trace (effects (snd (collect future cb n order b))))"
proof (induction order arbitrary: b)
  case Nil
  show ?case by simp
next
  case (Cons i order)
  show ?case
  proof (cases "future i")
    case (Inl m)
    then show ?thesis by simp
  next
    case (Inr d)
    show ?thesis
    proof (cases "record_part cb n i d b")
      case rp: (Inl m)
      with Inr show ?thesis by simp
    next
      case rp: (Inr b')
      then have "prefix (trace (effects b)) (trace (effects b'))"
        by (auto simp: record_part_def Let_def split: sum.splits)
      also have "prefix (trace (effects b')) (trace (effects (snd (collect future cb n order b'))))"
        by (rule Cons.IH)
      finally show ?thesis using Inr rp by simp
    qed
  qed
qed

lemma grows_submit: "prefix (trace w) (trace (fold (\<lambda>p. note_event (f p)) ps w))"
proof (induction ps arbitrary: w)
  case Nil
  show ?case by simp
next
  case (Cons p ps)
  have "prefix (trace w) (trace (note_event (f p) w))" by simp
  also have "prefix (trace (note_event (f p) w))
      (trace (fold (\<lambda>p. note_event (f p)) ps (note_event (f p) w)))"
    by (rule Cons.IH)
  finally show ?case by simp
qed

lemma grows_split_audio: "prefix (trace w) (trace (snd (split_audio env p seconds w)))"
  by (simp add: split_audio_def Let_def split: sum.splits)

lemma grows_chunked:
  "prefix (trace w) (trace (snd (transcribe_chunked env cb p model language w)))"
proof -
  let ?v = "emit cb 84 (note_event (NewProcessor Chunking) w)"
  obtain r w1 where s: "split_audio env p 298 ?v = (r, w1)"
    by (cases "split_audio env p 298 ?v")
  have "prefix (trace w) (trace ?v)" by (simp add: trace_emit)
  also have "prefix (trace ?v) (trace w1)"
    using grows_split_audio [of ?v env p 298] by (simp add: s)
  finally have w1: "prefix (trace w) (trace w1)" .
  have rest: "prefix (trace w) (trace (cleanup env chunks (effects (snd (collect future cb n order
      \<lparr>results = rs, total_usage = tu, completed_count = c,
        effects = fold (\<lambda>q. note_event (ApiCall (f q))) chunks w1\<rparr>)))))"
    for chunks future n order rs tu c f
  proof -
    let ?w2 = "fold (\<lambda>q. note_event (ApiCall (f q))) chunks w1"
    let ?b = "\<lparr>results = rs, total_usage = tu, completed_count = c, effects = ?w2\<rparr>"
    let ?w3 = "effects (snd (collect future cb n order ?b))"
    note w1
    also have "prefix (trace w1) (trace ?w2)" by (rule grows_submit)
    also have "prefix (trace ?w2) (trace ?w3)"
      using grows_collect [of ?b future cb n order] by simp
    also have "prefix (trace ?w3) (trace (cleanup env chunks ?w3))" by (rule grows_cleanup)
    finally show ?thesis .
  qed
  have rest99: "prefix (trace w) (trace (emit cb 99 v))" if "prefix (trace w) (trace v)" for v
  proof -
    note that
    also have "prefix (trace v) (trace (emit cb 99 v))" by simp
    finally show ?thesis .
  qed
  show ?thesis
    by (simp add: transcribe_chunked_def new_processor_def s w1 rest rest99 Let_def
          case_prod_beta split: sum.splits option.splits)
qed

lemma grows_recover: "prefix (trace w) (trace (snd (recover env cb t p language m w)))"
  by (simp add: recover_def api_call_def grows_chunked split: sum.splits)


subsection \<open>Size-triggered compression\<close>

lemma single_shot_after_upload:
  assumes "prepare_upload env cb audio_path (emit cb 85 w) = (Inr p, w1)"
  shows "\<exists>post. trace (snd (single_shot env cb t audio_path language w))
                  = trace w1 @ ApiCall (upload_request t p language) # post"
    and "compressions (trace (snd (single_shot env cb t audio_path language w)))
           = compressions (trace w1)"
proof -
  let ?w2 = "note_event (ApiCall (upload_request t p language)) w1"
  have grow: "\<exists>post. trace v = trace w1 @ ApiCall (upload_request t p language) # post"
    if "prefix (trace ?w2) (trace v)" for v :: world
    using that by (auto simp: prefix_def)
  show "\<exists>post. trace (snd (single_shot env cb t audio_path language w))
                  = trace w1 @ ApiCall (upload_request t p language) # post"
  proof (cases "api_create env (upload_request t p language)")
    case (Inl m)
    with assms grows_recover [of ?w2 env cb t p language m] show ?thesis
      by (simp add: single_shot_def api_call_def grow)
  next
    case (Inr r)
    with assms grows_emit [of ?w2 cb 99] show ?thesis
      by (simp add: single_shot_def api_call_def grow del: grows_emit)
  qed
  show "compressions (trace (snd (single_shot env cb t audio_path language w)))
           = compressions (trace w1)"
    using assms
    by (simp add: single_shot_def api_call_def views_recover split: sum.splits)
qed

text \<open>
  Claim C8, as amended. In a single-shot job whose file is larger than 24 MB, and for
  which the audio processor can be constructed, \<open>compress_for_api\<close> is called exactly once,
  on the original file and before the first remote call. That call is the upload, and the
  file it sends is the compressed file, whose path differs from the original one, when the
  compression succeeded, and the original file when the compression failed.
\<close>

theorem oversized_upload_compressed_once:
  assumes "audio_path \<in> files w" and "is_api_model t" and "api_key t = Some k" and "k \<noteq> []"
    and "duration_check env audio_path (emit cb 82 w) = (False, w0)"
    and "24 < real (getsize env audio_path) / (1024 * 1024)"
    and "ffmpeg_ok env Compression"
  defines "p \<equiv> if ffmpeg_compress env audio_path (bitrate_kbps env audio_path)
                       (compressed_path audio_path) = None
                  then compressed_path audio_path else audio_path"
  shows "compressions (trace (snd (transcribe env cb t audio_path language w)))
           = compressions (trace w) @ [audio_path]
       \<and> (\<exists>pre post.
             trace (snd (transcribe env cb t audio_path language w))
               = pre @ ApiCall (upload_request t p language) # post
             \<and> api_calls pre = api_calls (trace w)
             \<and> compressions pre = compressions (trace w) @ [audio_path])
       \<and> compressed_path audio_path \<noteq> audio_path"
proof -
  from assms(5) have w0: "w0 = note_event (NewProcessor DurationCheck) (emit cb 82 w)"
    by (simp add: duration_check_eq)
  from assms(1) have here: "audio_path \<in> files (emit cb 85 w0)" by (simp add: w0)
  obtain w1 where up: "prepare_upload env cb audio_path (emit cb 85 w0) = (Inr p, w1)"
    using prepare_upload_big(1) [OF assms(6) here assms(7), of cb]
    by (cases "prepare_upload env cb audio_path (emit cb 85 w0)") (simp add: p_def)
  from prepare_upload_big(2) [OF assms(6) here assms(7), of cb]
  have "trace w1 = trace (emit cb 85 w0) @ (if cb then [Progress 83] else [])
      @ [NewProcessor Compression, Compress audio_path] @ (if cb then [Progress 62] else [])"
    by (simp add: up)
  then have w1: "compressions (trace w1) = compressions (trace w) @ [audio_path]"
    "api_calls (trace w1) = api_calls (trace w)"
    by (simp_all add: w0)
  from assms(5) have job: "transcribe env cb t audio_path language w
      = single_shot env cb t audio_path language w0"
    by (simp add: transcribe_remote [OF assms(1-4)])
  from single_shot_after_upload [OF up, of t language] w1 show ?thesis
    unfolding job by (auto simp: compressed_path_differs)
qed

lemma compressed_talk: "compressed_path ''talk.wav'' = ''talk_compressed.mp3''"
  by code_simp

lemma big_envs [simp]:
  "ffmpeg_ok big_env s" "ffprobe big_env p = Some 100"
  "getsize big_env p = 30 * 1024 * 1024"
  "ffmpeg_compress big_env p bitrate out = None"
  "ffmpeg_ok big_broken_env s" "ffprobe big_broken_env p = Some 100"
  "getsize big_broken_env p = 30 * 1024 * 1024"
  "ffmpeg_compress big_broken_env p bitrate out = Some ''encoder error''"
  "api_create big_env req = Inr (echo req)"
  "api_create big_broken_env req = Inr (echo req)"
  by (simp_all add: big_env_def big_broken_env_def)

theorem oversized_upload_compressed_once_witness:
  "compressions (trace (snd (transcribe big_env True gpt4o ''talk.wav'' None studio)))
     = [''talk.wav'']
   \<and> (\<exists>pre post.
         trace (snd (transcribe big_env True gpt4o ''talk.wav'' None studio))
           = pre @ ApiCall (upload_request gpt4o ''talk_compressed.mp3'' None) # post
         \<and> api_calls pre = [] \<and> compressions pre = [''talk.wav''])"
proof -
  have h1: "''talk.wav'' \<in> files studio" by simp
  have h4: "''sk-test'' \<noteq> []" by simp
  have h5: "duration_check big_env ''talk.wav'' (emit True 82 studio)
    = (False, note_event (NewProcessor DurationCheck) (emit True 82 studio))"
    by (simp add: duration_check_eq get_audio_duration_def)
  have h6: "24 < real (getsize big_env ''talk.wav'') / (1024 * 1024)" by simp
  have h7: "ffmpeg_ok big_env Compression" by simp
  from oversized_upload_compressed_once
    [OF h1 example_transcribers(1) example_transcribers(2) h4 h5 h6 h7, of None]
  show ?thesis by (simp add: compressed_talk)
qed

text \<open>
  The claim as stated fails: when \<open>ffmpeg\<close> cannot compress the recording, the
  exception is swallowed at line 152 and the upload sends the original file.
\<close>

theorem failed_compression_uploads_original:
  "trace (snd (transcribe big_broken_env True gpt4o ''talk.wav'' None studio))
     = [Progress 82, NewProcessor DurationCheck, Progress 85, Progress 83,
        NewProcessor Compression, Compress ''talk.wav'', Progress 62,
        ApiCall (upload_request gpt4o ''talk.wav'' None), Progress 99]"
  by (simp add: transcribe_remote [where k = "''sk-test''"] duration_check_eq
        get_audio_duration_def single_shot_def prepare_upload_def new_processor_def
        compress_for_api_def api_call_def emit_def Let_def)

subsection \<open>Progress percentages\<close>

text \<open>
  Claim C9. The percentages handed to the progress callback within one job should never
  decrease. They do: a job that compresses an oversized file reports 85, then 83 (line
  145), then 62 (\<open>compress_for_api\<close>), and a job that falls back to the chunked mode after
  a refused upload reports 85, then 84 (line 310).
\<close>

theorem progress_regresses:
  "percentages (trace (snd (transcribe big_env True gpt4o ''talk.wav'' None studio)))
     = [82, 85, 83, 62, 99]
   \<and> percentages (trace (snd (transcribe strict_env True gpt4o ''talk.wav'' None studio)))
     = [82, 85, 84, 92, 99, 99]"
proof -
  have "percentages (trace (snd (transcribe big_env True gpt4o ''talk.wav'' None studio)))
     = [82, 85, 83, 62, 99]"
    by (simp add: transcribe_remote [where k = "''sk-test''"] duration_check_eq
        get_audio_duration_def single_shot_def prepare_upload_def new_processor_def
        compress_for_api_def api_call_def emit_def Let_def)
  moreover
  have "percentages (trace (snd (transcribe strict_env True gpt4o ''talk.wav'' None studio)))
     = [82, 85, 84, 92, 99, 99]"
    by (simp add: transcribe_remote [where k = "''sk-test''"] duration_check_eq
        get_audio_duration_def single_shot_def prepare_upload_small api_call_def
        upload_request_def part_request_def recover_def too_large_def strict_env_def
        transcribe_chunked_def new_processor_def split_audio_def emit_def Let_def
        transcribe_part_def upt_rec [of 0] upt_rec [of 1] record_part_def echo_def
        account_usage_def zero_usage_def response_fmt_def)
  ultimately show ?thesis by simp
qed

subsection \<open>A duration check that raises\<close>

lemma no_underscore: "CHR ''_'' \<notin> set ffmpeg_missing_msg"
  by (simp add: ffmpeg_missing_msg_def)

lemma no_x: "CHR ''x'' \<notin> set ffmpeg_missing_msg"
  by (simp add: ffmpeg_missing_msg_def)

lemma ffmpeg_missing_not_too_large: "\<not> too_large ffmpeg_missing_msg"
proof
  assume "too_large ffmpeg_missing_msg"
  then consider "sublist ''input_too_large'' ffmpeg_missing_msg"
    | "sublist ''maximum context'' ffmpeg_missing_msg"
    by (auto simp only: too_large_def)
  then show False
  proof cases
    case 1
    from set_mono_sublist [OF this] have "CHR ''_'' \<in> set ffmpeg_missing_msg" by auto
    with no_underscore show False by simp
  next
    case 2
    from set_mono_sublist [OF this] have "CHR ''x'' \<in> set ffmpeg_missing_msg" by auto
    with no_x show False by simp
  qed
qed

lemma processors_prepare_upload:
  "processors (trace (snd (prepare_upload env cb audio_path w)))
     = processors (trace w)
       @ (if 24 < real (getsize env audio_path) / (1024 * 1024) then [Compression] else [])"
  by (simp add: prepare_upload_def new_processor_def compress_for_api_def Let_def
        trace_emit split: option.splits)

lemma processors_single_shot:
  "processors (trace (snd (single_shot env cb t audio_path language w)))
     = processors (trace (snd (prepare_upload env cb audio_path (emit cb 85 w))))
       @ (if \<exists>p m. fst (prepare_upload env cb audio_path (emit cb 85 w)) = Inr p
                  \<and> api_create env (upload_request t p language) = Inl m \<and> too_large m
          then [Chunking] else [])"
proof (cases "prepare_upload env cb audio_path (emit cb 85 w)")
  case (Pair r w1)
  show ?thesis
  proof (cases r)
    case (Inl e)
    with Pair prepare_upload_Inl [of env cb audio_path "emit cb 85 w" e]
    show ?thesis
      by (simp add: single_shot_def views_recover ffmpeg_missing_not_too_large)
  next
    case (Inr p)
    with Pair show ?thesis
      by (cases "api_create env (upload_request t p language)")
         (simp_all add: single_shot_def api_call_def views_recover)
  qed
qed

text \<open>
  Claim C10. When the duration check raises, which it does when the processor cannot be
  constructed, \<open>should_chunk\<close> is false and the job is the single-shot path, whatever the
  length of the recording. Such a job enters the chunked mode exactly when its upload is
  made and fails with a message classified as too large.
\<close>

theorem failed_duration_check_means_single_shot:
  assumes "audio_path \<in> files w" and "is_api_model t" and "api_key t = Some k" and "k \<noteq> []"
    and "\<not> ffmpeg_ok env DurationCheck"
    and "Chunking \<notin> set (processors (trace w))"
  shows "\<not> fst (duration_check env audio_path (emit cb 82 w))
       \<and> transcribe env cb t audio_path language w
           = single_shot env cb t audio_path language
               (note_event (NewProcessor DurationCheck) (emit cb 82 w))
       \<and> (Chunking \<in> set (processors (trace (snd (transcribe env cb t audio_path language w))))
          \<longleftrightarrow> (\<exists>p m.
                 fst (prepare_upload env cb audio_path
                        (emit cb 85 (note_event (NewProcessor DurationCheck) (emit cb 82 w))))
                   = Inr p
                 \<and> api_create env (upload_request t p language) = Inl m \<and> too_large m))"
  using assms(5,6)
  by (simp add: transcribe_remote [OF assms(1-4)] duration_check_eq processors_single_shot
        processors_prepare_upload)

theorem failed_duration_check_means_single_shot_witness:
  "transcribe unprobed_env True gpt4o ''talk.wav'' None studio
     = single_shot unprobed_env True gpt4o ''talk.wav'' None
         (note_event (NewProcessor DurationCheck) (emit True 82 studio))
   \<and> trace (snd (transcribe unprobed_env True gpt4o ''talk.wav'' None studio))
     = [Progress 82, NewProcessor DurationCheck, Progress 85,
        ApiCall (upload_request gpt4o ''talk.wav'' None), Progress 99]"
proof -
  have h1: "''talk.wav'' \<in> files studio" by simp
  have h4: "''sk-test'' \<noteq> []" by simp
  have h5: "\<not> ffmpeg_ok unprobed_env DurationCheck" by (simp add: unprobed_env_def)
  have h6: "Chunking \<notin> set (processors (trace studio))" by simp
  from failed_duration_check_means_single_shot
    [OF h1 example_transcribers(1) example_transcribers(2) h4 h5 h6, of True None]
  show ?thesis
    by (simp add: single_shot_def prepare_upload_small api_call_def unprobed_env_def
          emit_def)
qed

end
